theory Spec2Isabelle
  imports Main "HOL-Library.Sublist"
begin

section \<open>Data model of the registry (pulp\_container/app/viewsets.py)\<close>

text \<open>
  Primary keys are natural numbers drawn from a counter of the database (the source uses
  fresh UUIDs). Byte strings and text are both \<open>string\<close>. Files are modelled by their
  content: the storage backend that maps a file name to its bytes is outside the source.
\<close>

type_synonym pk = nat
type_synonym bytes = string

text \<open>
  The exceptions the handlers can raise. The two bare \<open>Exception\<close>s of
  \<open>BlobUploads\<close> carry the names the specification gives them:
  \<open>OffsetMismatch\<close> is \<open>raise Exception\<close> of \<open>partial_update\<close>,
  \<open>DigestMismatch\<close> is \<open>raise Exception("The digest did not match")\<close> of \<open>put\<close>,
  and \<open>UnresolvedReference\<close> is the \<open>Blob.DoesNotExist\<close> that
  \<open>models.Blob.objects.get\<close> raises in \<open>Manifests.put\<close>.
\<close>

datatype error =
    Http404
  | MethodNotAllowed
  | KeyError
  | DoesNotExist
  | MultipleObjectsReturned
  | UnboundLocalError
  | AttributeError
  | TypeError
  | JSONDecodeError
  | ValidationError
  | OffsetMismatch
  | DigestMismatch
  | UnresolvedReference

record artifact =
  a_pk :: pk
  a_file :: bytes
  a_md5 :: string
  a_sha1 :: string
  a_sha256 :: string
  a_sha384 :: string
  a_sha512 :: string
  a_size :: nat

record blob =
  b_pk :: pk
  b_digest :: string
  b_media_type :: string

record manifest =
  m_pk :: pk
  m_digest :: string
  m_schema_version :: nat
  m_media_type :: string
  m_config_blob :: pk

record tag =
  t_pk :: pk
  t_name :: string
  t_tagged_manifest :: pk

record content_artifact =
  ca_artifact :: pk
  ca_content :: pk
  ca_relative_path :: string

record blob_manifest =
  bm_manifest :: pk
  bm_manifest_blob :: pk

record upload =
  u_pk :: pk
  u_repository :: pk
  u_file :: bytes
  u_offset :: int
  u_md5 :: string
  u_sha1 :: string
  u_sha256 :: string
  u_sha384 :: string
  u_sha512 :: string

record distribution =
  d_repository :: "pk option"
  d_repository_version :: "pk set option"

text \<open>
  The relational store. \<open>versions db r\<close> lists the content sets of the versions of
  repository \<open>r\<close>, oldest first; \<open>push_enabled\<close> is the class attribute
  \<open>PUSH_ENABLED\<close> of the repository's type.
\<close>

record db =
  artifacts :: "artifact list"
  blobs :: "blob list"
  manifests :: "manifest list"
  tags :: "tag list"
  content_artifacts :: "content_artifact list"
  blob_manifests :: "blob_manifest list"
  uploads :: "upload list"
  distributions :: "string \<Rightarrow> distribution option"
  push_enabled :: "pk \<Rightarrow> bool"
  versions :: "pk \<Rightarrow> pk set list"
  next_pk :: pk

record request =
  content_range :: "string option"
  query_digest :: "string option"
  wsgi_input :: bytes
  content_type :: string

datatype response =
    UploadResponse upload string nat
  | BlobResponse blob string nat nat
  | ManifestResponse manifest string nat nat
  | Redirect string

section \<open>Queries\<close>

text \<open>\<open>Model.objects.get(...)\<close>: exactly one row, or an exception.\<close>

definition objects_get :: "('a \<Rightarrow> bool) \<Rightarrow> 'a list \<Rightarrow> error + 'a" where
  "objects_get P rows =
     (case filter P rows of
        [] \<Rightarrow> Inl DoesNotExist
      | [x] \<Rightarrow> Inr x
      | _ \<Rightarrow> Inl MultipleObjectsReturned)"

text \<open>\<open>get_object_or_404\<close> turns \<open>DoesNotExist\<close> into \<open>Http404\<close> and nothing else.\<close>

definition get_object_or_404 :: "('a \<Rightarrow> bool) \<Rightarrow> 'a list \<Rightarrow> error + 'a" where
  "get_object_or_404 P rows =
     (case objects_get P rows of
        Inl DoesNotExist \<Rightarrow> Inl Http404
      | r \<Rightarrow> r)"

text \<open>\<open>content._artifacts\<close>: the artifacts joined through \<open>ContentArtifact\<close>.\<close>

definition artifacts_of :: "db \<Rightarrow> pk \<Rightarrow> artifact list" where
  "artifacts_of db c =
     concat (map (\<lambda>ca. filter (\<lambda>a. a_pk a = ca_artifact ca) (artifacts db))
                 (filter (\<lambda>ca. ca_content ca = c) (content_artifacts db)))"

section \<open>ContainerRegistryApiMixin\<close>

text \<open>\<open>get_dr_push\<close> with \<open>create=False\<close>, as every handler modelled here calls it.\<close>

definition get_dr_push :: "db \<Rightarrow> string \<Rightarrow> error + pk" where
  "get_dr_push db path =
     (case distributions db path of
        None \<Rightarrow> Inl Http404
      | Some d \<Rightarrow>
          (case d_repository d of
             Some repository \<Rightarrow>
               if \<not> push_enabled db repository then Inl MethodNotAllowed else Inr repository
           | None \<Rightarrow> Inl Http404))"

text \<open>
  \<open>repository.latest_version()\<close> and \<open>get_drv_pull\<close>, which returns the content of the
  version to serve.
\<close>

definition latest_version :: "db \<Rightarrow> pk \<Rightarrow> pk set option" where
  "latest_version db r = (case versions db r of [] \<Rightarrow> None | vs \<Rightarrow> Some (last vs))"

definition get_drv_pull :: "db \<Rightarrow> string \<Rightarrow> error + pk set" where
  "get_drv_pull db path =
     (case distributions db path of
        None \<Rightarrow> Inl Http404
      | Some d \<Rightarrow>
          (case d_repository d of
             Some r \<Rightarrow>
               (case latest_version db r of None \<Rightarrow> Inl AttributeError | Some c \<Rightarrow> Inr c)
           | None \<Rightarrow>
               (case d_repository_version d of Some c \<Rightarrow> Inr c | None \<Rightarrow> Inl Http404)))"

text \<open>
  \<open>with repository.new_version() as new_version\<close>: the body \<open>f\<close> maps the content of
  the latest version to the content of the new one by its \<open>add_content\<close> and
  \<open>remove_content\<close> calls, applied in program order; on exit the new version is
  published.
\<close>

definition add_content :: "pk set \<Rightarrow> pk list \<Rightarrow> pk set" where
  "add_content c qs = c \<union> set qs"

definition remove_content :: "pk set \<Rightarrow> pk list \<Rightarrow> pk set" where
  "remove_content c qs = c - set qs"

definition new_version :: "db \<Rightarrow> pk \<Rightarrow> (pk set \<Rightarrow> pk set) \<Rightarrow> db" where
  "new_version db r f =
     db\<lparr>versions := (versions db)
          (r := versions db r @ [f (case latest_version db r of None \<Rightarrow> {} | Some c \<Rightarrow> c)])\<rparr>"

section \<open>Response constructors\<close>

definition mk_BlobResponse :: "db \<Rightarrow> blob \<Rightarrow> string \<Rightarrow> nat \<Rightarrow> error + response" where
  "mk_BlobResponse db b path status =
     (case objects_get (\<lambda>_. True) (artifacts_of db (b_pk b)) of
        Inl e \<Rightarrow> Inl e
      | Inr a \<Rightarrow> Inr (BlobResponse b path status (a_size a)))"

definition mk_ManifestResponse :: "db \<Rightarrow> manifest \<Rightarrow> string \<Rightarrow> nat \<Rightarrow> error + response" where
  "mk_ManifestResponse db m path status =
     (case objects_get (\<lambda>_. True) (artifacts_of db (m_pk m)) of
        Inl e \<Rightarrow> Inl e
      | Inr a \<Rightarrow> Inr (ManifestResponse m path status 0))"

section \<open>Creating rows under unique constraints\<close>

text \<open>
  Modelled from the spec: the unique constraints of the models, whose declarations
  (models.py of this repository, and pulpcore's Artifact and ContentArtifact) are not among
  the source files. An Artifact is keyed by its sha256, a Blob and a Manifest by their
  digest; a Tag row by its name together with its tagged manifest, and a ContentArtifact by
  its content together with its relative path, as the lookups that follow each
  \<open>except IntegrityError\<close> in the source use them. \<open>save\<close> returns \<open>None\<close> where the
  source's \<open>save()\<close> raises \<open>IntegrityError\<close>; otherwise the row gets a fresh primary key.
\<close>

definition artifact_save :: "db \<Rightarrow> artifact \<Rightarrow> (artifact \<times> db) option" where
  "artifact_save db a =
     (if a_sha256 a \<in> set (map a_sha256 (artifacts db)) then None
      else let a' = a\<lparr>a_pk := next_pk db\<rparr>
           in Some (a', db\<lparr>artifacts := artifacts db @ [a'], next_pk := Suc (next_pk db)\<rparr>))"

definition blob_save :: "db \<Rightarrow> blob \<Rightarrow> (blob \<times> db) option" where
  "blob_save db b =
     (if b_digest b \<in> set (map b_digest (blobs db)) then None
      else let b' = b\<lparr>b_pk := next_pk db\<rparr>
           in Some (b', db\<lparr>blobs := blobs db @ [b'], next_pk := Suc (next_pk db)\<rparr>))"

definition manifest_save :: "db \<Rightarrow> manifest \<Rightarrow> (manifest \<times> db) option" where
  "manifest_save db m =
     (if m_digest m \<in> set (map m_digest (manifests db)) then None
      else let m' = m\<lparr>m_pk := next_pk db\<rparr>
           in Some (m', db\<lparr>manifests := manifests db @ [m'], next_pk := Suc (next_pk db)\<rparr>))"

definition tag_save :: "db \<Rightarrow> tag \<Rightarrow> (tag \<times> db) option" where
  "tag_save db t =
     (if (t_name t, t_tagged_manifest t)
           \<in> set (map (\<lambda>x. (t_name x, t_tagged_manifest x)) (tags db)) then None
      else let t' = t\<lparr>t_pk := next_pk db\<rparr>
           in Some (t', db\<lparr>tags := tags db @ [t'], next_pk := Suc (next_pk db)\<rparr>))"

definition content_artifact_save :: "db \<Rightarrow> content_artifact \<Rightarrow> db option" where
  "content_artifact_save db ca =
     (if (ca_content ca, ca_relative_path ca)
           \<in> set (map (\<lambda>x. (ca_content x, ca_relative_path x)) (content_artifacts db)) then None
      else Some (db\<lparr>content_artifacts := content_artifacts db @ [ca]\<rparr>))"

text \<open>
  The \<open>try: x.save() except IntegrityError: x = X.objects.get(key)\<close> blocks of
  \<open>BlobUploads.put\<close> (artifact, blob), \<open>Manifests.put\<close> (manifest) and
  \<open>Manifests.receive_artifact\<close> (artifact), and the \<open>except IntegrityError: pass\<close>
  blocks (content artifact, tag).
\<close>

definition create_artifact :: "db \<Rightarrow> artifact \<Rightarrow> (error + artifact) \<times> db" where
  "create_artifact db a =
     (case artifact_save db a of
        Some (a', db') \<Rightarrow> (Inr a', db')
      | None \<Rightarrow> (objects_get (\<lambda>x. a_sha256 x = a_sha256 a) (artifacts db), db))"

definition create_blob :: "db \<Rightarrow> blob \<Rightarrow> (error + blob) \<times> db" where
  "create_blob db b =
     (case blob_save db b of
        Some (b', db') \<Rightarrow> (Inr b', db')
      | None \<Rightarrow> (objects_get (\<lambda>x. b_digest x = b_digest b) (blobs db), db))"

definition create_manifest :: "db \<Rightarrow> manifest \<Rightarrow> (error + manifest) \<times> db" where
  "create_manifest db m =
     (case manifest_save db m of
        Some (m', db') \<Rightarrow> (Inr m', db')
      | None \<Rightarrow> (objects_get (\<lambda>x. m_digest x = m_digest m) (manifests db), db))"

definition create_content_artifact :: "db \<Rightarrow> content_artifact \<Rightarrow> db" where
  "create_content_artifact db ca =
     (case content_artifact_save db ca of Some db' \<Rightarrow> db' | None \<Rightarrow> db)"

definition create_tag :: "db \<Rightarrow> tag \<Rightarrow> db" where
  "create_tag db t = (case tag_save db t of Some (t', db') \<Rightarrow> db' | None \<Rightarrow> db)"

section \<open>BlobUploads\<close>

text \<open>
  \<open>content_range_pattern = re.compile(r"^(?P<start>\d+)-(?P<end>\d+)$")\<close>, used with
  \<open>match\<close>. Characters are bytes, so \<open>\d\<close> is an ASCII digit; \<open>$\<close> also matches
  before one final newline.
\<close>

definition is_digit :: "char \<Rightarrow> bool" where
  "is_digit c = (c \<in> set ''0123456789'')"

definition int_of_digits :: "string \<Rightarrow> int" where
  "int_of_digits ds = foldl (\<lambda>n c. 10 * n + (int (of_char c) - 48)) 0 ds"

definition content_range_pattern_match :: "string \<Rightarrow> (string \<times> string) option" where
  "content_range_pattern_match s =
     (let s' = (if s \<noteq> [] \<and> last s = CHR 0x0A then butlast s else s);
          a = takeWhile is_digit s'
      in if a = [] then None
         else (case dropWhile is_digit s' of
                 [] \<Rightarrow> None
               | c # b \<Rightarrow>
                   if c = CHR ''-'' \<and> b \<noteq> [] \<and> list_all is_digit b then Some (a, b)
                   else None))"

text \<open>
  Modelled from the spec: \<open>Upload.append_chunk\<close> of models.py, which is not among the
  source files. The spec's \<open>append\<close> "appends chunk bytes, updates running multi-algorithm
  digest accumulators incrementally, advances offset by chunk length"; it gives no role to
  the \<open>chunk_size\<close> argument that the caller passes. \<open>hexdigest alg data\<close> stands for
  \<open>hashlib\<close>'s hex digest of \<open>data\<close> under the algorithm \<open>alg\<close>.
\<close>

definition append_chunk ::
  "(string \<Rightarrow> bytes \<Rightarrow> string) \<Rightarrow> upload \<Rightarrow> bytes \<Rightarrow> int \<Rightarrow> upload" where
  "append_chunk hexdigest u chunk chunk_size =
     (let data = u_file u @ chunk
      in u\<lparr>u_file := data,
           u_offset := u_offset u + int (length chunk),
           u_md5 := hexdigest ''md5'' data,
           u_sha1 := hexdigest ''sha1'' data,
           u_sha256 := hexdigest ''sha256'' data,
           u_sha384 := hexdigest ''sha384'' data,
           u_sha512 := hexdigest ''sha512'' data\<rparr>)"

text \<open>\<open>upload.save()\<close> and \<open>upload.delete()\<close> of a row that was fetched.\<close>

definition upload_save :: "db \<Rightarrow> upload \<Rightarrow> db" where
  "upload_save db u =
     db\<lparr>uploads := map (\<lambda>x. if u_pk x = u_pk u then u else x) (uploads db)\<rparr>"

definition upload_delete :: "db \<Rightarrow> upload \<Rightarrow> db" where
  "upload_delete db u = db\<lparr>uploads := filter (\<lambda>x. u_pk x \<noteq> u_pk u) (uploads db)\<rparr>"

text \<open>
  The first half of \<open>partial_update\<close>: \<open>whole\<close>, and the triple
  \<open>(start, end, chunk_size)\<close>. On the \<open>whole\<close> branch the source assigns \<open>start\<close> and
  \<open>end\<close> only, so \<open>chunk_size\<close> is an unbound local there: \<open>None\<close>.
\<close>

definition whole :: "request \<Rightarrow> bool" where
  "whole request =
     (if content_range request \<noteq> None \<or> query_digest request = None then False else True)"

definition chunk_range :: "request \<Rightarrow> int \<times> int \<times> int option" where
  "chunk_range request =
     (if whole request then (0, int (length (wsgi_input request)) - 1, None)
      else (case content_range_pattern_match
                   (case content_range request of None \<Rightarrow> [] | Some s \<Rightarrow> s) of
              None \<Rightarrow> (0, 0, Some 0)
            | Some (s, e) \<Rightarrow>
                (int_of_digits s, int_of_digits e, Some (int_of_digits e - int_of_digits s + 1))))"

definition BlobUploads_partial_update ::
  "(string \<Rightarrow> bytes \<Rightarrow> string) \<Rightarrow> db \<Rightarrow> request \<Rightarrow> string \<Rightarrow> pk \<Rightarrow> (error + response) \<times> db" where
  "BlobUploads_partial_update hexdigest db request path pk =
     (case get_dr_push db path of
        Inl e \<Rightarrow> (Inl e, db)
      | Inr repository \<Rightarrow>
          (case chunk_range request of
             (start, end, chunk_size) \<Rightarrow>
               (case get_object_or_404 (\<lambda>u. u_repository u = repository \<and> u_pk u = pk)
                       (uploads db) of
                  Inl e \<Rightarrow> (Inl e, db)
                | Inr upload \<Rightarrow>
                    if u_offset upload \<noteq> start then (Inl OffsetMismatch, db)
                    else (case chunk_size of
                            None \<Rightarrow> (Inl UnboundLocalError, db)
                          | Some n \<Rightarrow>
                              let upload' = append_chunk hexdigest upload (wsgi_input request) n
                              in (Inr (UploadResponse upload' path (length (u_file upload'))),
                                  upload_save db upload')))))"

text \<open>
  Modelled from the spec: the constant \<open>models.MEDIA_TYPE.REGULAR_BLOB\<close> of models.py,
  the media type of a regular layer.
\<close>

definition REGULAR_BLOB :: string where
  "REGULAR_BLOB = ''application/vnd.docker.image.rootfs.diff.tar.gzip''"

definition BlobUploads_put ::
  "db \<Rightarrow> request \<Rightarrow> string \<Rightarrow> pk \<Rightarrow> (error + response) \<times> db" where
  "BlobUploads_put db request path pk =
     (case get_dr_push db path of
        Inl e \<Rightarrow> (Inl e, db)
      | Inr repository \<Rightarrow>
     (case query_digest request of
        None \<Rightarrow> (Inl KeyError, db)
      | Some digest \<Rightarrow>
     (case objects_get (\<lambda>u. u_pk u = pk \<and> u_repository u = repository) (uploads db) of
        Inl e \<Rightarrow> (Inl e, db)
      | Inr upload \<Rightarrow>
          if u_sha256 upload = drop (length ''sha256:'') digest then
            (case create_artifact db
                    \<lparr>a_pk = 0, a_file = u_file upload, a_md5 = u_md5 upload,
                     a_sha1 = u_sha1 upload, a_sha256 = u_sha256 upload,
                     a_sha384 = u_sha384 upload, a_sha512 = u_sha512 upload,
                     a_size = length (u_file upload)\<rparr> of
               (Inl e, db1) \<Rightarrow> (Inl e, db1)
             | (Inr artifact, db1) \<Rightarrow>
            (case create_blob db1 \<lparr>b_pk = 0, b_digest = digest, b_media_type = REGULAR_BLOB\<rparr> of
               (Inl e, db2) \<Rightarrow> (Inl e, db2)
             | (Inr blob, db2) \<Rightarrow>
                 let db3 = create_content_artifact db2
                             \<lparr>ca_artifact = a_pk artifact, ca_content = b_pk blob,
                              ca_relative_path = digest\<rparr>;
                     db4 = new_version db3 repository
                             (\<lambda>c. add_content c
                                     (map b_pk (filter (\<lambda>b. b_pk b = b_pk blob) (blobs db3))));
                     db5 = upload_delete db4 upload
                 in (mk_BlobResponse db5 blob path 201, db5)))
          else (Inl DigestMismatch, db))))"

section \<open>Manifests\<close>

text \<open>
  The value \<open>json.loads\<close> returns. The parser itself is outside the source and is a
  parameter of \<open>Manifests_put\<close>: \<open>json_loads raw = None\<close> where it raises.
\<close>

datatype json =
    JNull
  | JBool bool
  | JNumber int
  | JString string
  | JArray "json list"
  | JObject "(string \<times> json) list"

text \<open>\<open>x.get(key)\<close>: \<open>dict.get\<close> on an object, \<open>AttributeError\<close> on anything else.\<close>

fun py_get :: "json \<Rightarrow> string \<Rightarrow> error + json" where
  "py_get (JObject kvs) k = Inr (case map_of kvs k of None \<Rightarrow> JNull | Some v \<Rightarrow> v)"
| "py_get _ k = Inl AttributeError"

text \<open>
  \<open>for layer in layers\<close>: the elements of a list, the keys of an object, the characters
  of a string; \<open>TypeError\<close> on a value that is not iterable.
\<close>

fun py_iter :: "json \<Rightarrow> error + json list" where
  "py_iter (JArray xs) = Inr xs"
| "py_iter (JObject kvs) = Inr (map (\<lambda>kv. JString (fst kv)) kvs)"
| "py_iter (JString s) = Inr (map (\<lambda>c. JString [c]) s)"
| "py_iter _ = Inl TypeError"

text \<open>
  The loop \<open>for layer in layers: blobs.append(layer.get("digest"))\<close>; the source's list
  \<open>blobs\<close> is \<open>blob_digests\<close> here.
\<close>

fun layer_digests :: "json list \<Rightarrow> json list \<Rightarrow> error + json list" where
  "layer_digests [] blob_digests = Inr blob_digests"
| "layer_digests (layer # layers) blob_digests =
     (case py_get layer ''digest'' of
        Inl e \<Rightarrow> Inl e
      | Inr d \<Rightarrow> layer_digests layers (blob_digests @ [d]))"

text \<open>
  \<open>receive_artifact\<close>: the sub-chunk loop reads the whole body, hashing it under each
  algorithm, and the artifact is saved or, on \<open>IntegrityError\<close>, fetched by its sha256.
\<close>

definition receive_artifact ::
  "(string \<Rightarrow> bytes \<Rightarrow> string) \<Rightarrow> db \<Rightarrow> bytes \<Rightarrow> (error + artifact) \<times> db" where
  "receive_artifact hexdigest db chunk =
     create_artifact db
       \<lparr>a_pk = 0, a_file = chunk, a_md5 = hexdigest ''md5'' chunk,
        a_sha1 = hexdigest ''sha1'' chunk, a_sha256 = hexdigest ''sha256'' chunk,
        a_sha384 = hexdigest ''sha384'' chunk, a_sha512 = hexdigest ''sha512'' chunk,
        a_size = length chunk\<rparr>"

text \<open>
  \<open>BlobManifest.objects.bulk_create(objs=thru, ignore_conflicts=True)\<close>: the links that
  are not there yet are inserted, the others are skipped.
\<close>

definition bulk_create_ignore_conflicts :: "db \<Rightarrow> blob_manifest list \<Rightarrow> db" where
  "bulk_create_ignore_conflicts db thru =
     db\<lparr>blob_manifests :=
          blob_manifests db @ filter (\<lambda>bm. bm \<notin> set (blob_manifests db)) (remdups thru)\<rparr>"

text \<open>
  The reference of \<open>head\<close> and \<open>get\<close>: a tag name unless \<open>pk[:7]\<close> is \<open>sha256:\<close>.
  Both handlers contain the same lookup; each is modelled in full.
\<close>

definition Manifests_head :: "db \<Rightarrow> string \<Rightarrow> string \<Rightarrow> error + response" where
  "Manifests_head db path pk =
     (case get_drv_pull db path of
        Inl e \<Rightarrow> Inl e
      | Inr content \<Rightarrow>
          (case (if take 7 pk \<noteq> ''sha256:'' then
                   (case get_object_or_404 (\<lambda>t. t_name t = pk \<and> t_pk t \<in> content) (tags db) of
                      Inl e \<Rightarrow> Inl e
                    | Inr tag \<Rightarrow>
                        objects_get (\<lambda>m. m_pk m = t_tagged_manifest tag) (manifests db))
                 else get_object_or_404 (\<lambda>m. m_digest m = pk \<and> m_pk m \<in> content)
                        (manifests db)) of
             Inl e \<Rightarrow> Inl e
           | Inr manifest \<Rightarrow> mk_ManifestResponse db manifest path 200))"

text \<open>
  The URL that \<open>get\<close> redirects to. \<open>settings.CONTENT_ORIGIN\<close> is deployment
  configuration: the parameter \<open>content_origin\<close>.
\<close>

definition manifest_url :: "string \<Rightarrow> string \<Rightarrow> string \<Rightarrow> string" where
  "manifest_url content_origin path digest =
     content_origin @ ''/pulp/container/'' @ path @ ''/manifests/'' @ digest"

definition Manifests_get :: "string \<Rightarrow> db \<Rightarrow> string \<Rightarrow> string \<Rightarrow> error + response" where
  "Manifests_get content_origin db path pk =
     (case get_drv_pull db path of
        Inl e \<Rightarrow> Inl e
      | Inr content \<Rightarrow>
          (case (if take 7 pk \<noteq> ''sha256:'' then
                   (case get_object_or_404 (\<lambda>t. t_name t = pk \<and> t_pk t \<in> content) (tags db) of
                      Inl e \<Rightarrow> Inl e
                    | Inr tag \<Rightarrow>
                        objects_get (\<lambda>m. m_pk m = t_tagged_manifest tag) (manifests db))
                 else get_object_or_404 (\<lambda>m. m_digest m = pk \<and> m_pk m \<in> content)
                        (manifests db)) of
             Inl e \<Rightarrow> Inl e
           | Inr manifest \<Rightarrow>
               Inr (Redirect (manifest_url content_origin path (m_digest manifest)))))"

text \<open>
  \<open>Manifests.put\<close>. The second half, from the creation of the manifest row on, is
  \<open>Manifests_put_store\<close>; an exception leaves the rows written before it in place.
\<close>

definition Manifests_put_store ::
  "db \<Rightarrow> pk \<Rightarrow> string \<Rightarrow> string \<Rightarrow> string \<Rightarrow> artifact \<Rightarrow> json \<Rightarrow> blob \<Rightarrow> (error + response) \<times> db" where
  "Manifests_put_store db1 repository path pk media_type artifact content_data config_blob =
     (case create_manifest db1
             \<lparr>m_pk = 0, m_digest = ''sha256:'' @ a_sha256 artifact, m_schema_version = 2,
              m_media_type = media_type, m_config_blob = b_pk config_blob\<rparr> of
        (Inl e, db2) \<Rightarrow> (Inl e, db2)
      | (Inr manifest, db2) \<Rightarrow>
          let db3 = create_content_artifact db2
                      \<lparr>ca_artifact = a_pk artifact, ca_content = m_pk manifest,
                       ca_relative_path = m_digest manifest\<rparr>
          in (case py_get content_data ''layers'' of
                Inl e \<Rightarrow> (Inl e, db3)
              | Inr layers \<Rightarrow>
             (case py_iter layers of
                Inl e \<Rightarrow> (Inl e, db3)
              | Inr layer_list \<Rightarrow>
             (case layer_digests layer_list [] of
                Inl e \<Rightarrow> (Inl e, db3)
              | Inr blob_digests \<Rightarrow>
                  let blobs_qs = filter (\<lambda>b. JString (b_digest b) \<in> set blob_digests)
                                   (blobs db3);
                      thru = map (\<lambda>b. \<lparr>bm_manifest = m_pk manifest, bm_manifest_blob = b_pk b\<rparr>)
                               blobs_qs;
                      db4 = bulk_create_ignore_conflicts db3 thru;
                      db5 = create_tag db4
                              \<lparr>t_pk = 0, t_name = pk, t_tagged_manifest = m_pk manifest\<rparr>;
                      db6 = new_version db5 repository
                              (\<lambda>c. add_content
                                      (remove_content
                                         (add_content c
                                            (map m_pk
                                               (filter (\<lambda>m. m_digest m = m_digest manifest)
                                                  (manifests db5))))
                                         (map t_pk (filter (\<lambda>t. t_name t = pk) (tags db5))))
                                      (map t_pk
                                         (filter (\<lambda>t. t_name t = pk
                                                      \<and> t_tagged_manifest t = m_pk manifest)
                                            (tags db5))))
                  in (mk_ManifestResponse db6 manifest path 201, db6)))))"

definition Manifests_put ::
  "(string \<Rightarrow> bytes \<Rightarrow> string) \<Rightarrow> (bytes \<Rightarrow> json option) \<Rightarrow> db \<Rightarrow> request \<Rightarrow> string \<Rightarrow> string
     \<Rightarrow> (error + response) \<times> db" where
  "Manifests_put hexdigest json_loads db request path pk =
     (case get_dr_push db path of
        Inl e \<Rightarrow> (Inl e, db)
      | Inr repository \<Rightarrow>
     (case receive_artifact hexdigest db (wsgi_input request) of
        (Inl e, db1) \<Rightarrow> (Inl e, db1)
      | (Inr artifact, db1) \<Rightarrow>
     (case json_loads (a_file artifact) of
        None \<Rightarrow> (Inl JSONDecodeError, db1)
      | Some content_data \<Rightarrow>
     (case py_get content_data ''config'' of
        Inl e \<Rightarrow> (Inl e, db1)
      | Inr config_layer \<Rightarrow>
     (case py_get config_layer ''digest'' of
        Inl e \<Rightarrow> (Inl e, db1)
      | Inr config_digest \<Rightarrow>
     (case objects_get (\<lambda>b. JString (b_digest b) = config_digest) (blobs db1) of
        Inl DoesNotExist \<Rightarrow> (Inl UnresolvedReference, db1)
      | Inl e \<Rightarrow> (Inl e, db1)
      | Inr config_blob \<Rightarrow>
          Manifests_put_store db1 repository path pk (content_type request) artifact
            content_data config_blob))))))"

section \<open>ContainerRepositoryViewSet.remove\<close>







section \<open>Consistency of the store\<close>

text \<open>
  What the unique constraints and fresh primary keys maintain: keys are distinct, every
  primary key in use is below the counter, every content artifact points at an artifact,
  and the content artifacts of a blob or manifest carry its digest as relative path (the
  handlers create them so).
\<close>

definition db_consistent :: "db \<Rightarrow> bool" where
  "db_consistent db \<longleftrightarrow>
     distinct (map a_sha256 (artifacts db))
   \<and> distinct (map a_pk (artifacts db))
   \<and> distinct (map b_digest (blobs db))
   \<and> distinct (map b_pk (blobs db))
   \<and> distinct (map m_digest (manifests db))
   \<and> distinct (map m_pk (manifests db))
   \<and> distinct (map t_pk (tags db))
   \<and> distinct (map (\<lambda>x. (t_name x, t_tagged_manifest x)) (tags db))
   \<and> distinct (map (\<lambda>x. (ca_content x, ca_relative_path x)) (content_artifacts db))
   \<and> (\<forall>a \<in> set (artifacts db). a_pk a < next_pk db)
   \<and> (\<forall>b \<in> set (blobs db). b_pk b < next_pk db)
   \<and> (\<forall>m \<in> set (manifests db). m_pk m < next_pk db)
   \<and> (\<forall>t \<in> set (tags db). t_pk t < next_pk db)
   \<and> (\<forall>ca \<in> set (content_artifacts db).
         ca_content ca < next_pk db \<and> ca_artifact ca \<in> set (map a_pk (artifacts db)))
   \<and> (\<forall>ca \<in> set (content_artifacts db). \<forall>b \<in> set (blobs db).
         ca_content ca = b_pk b \<longrightarrow> ca_relative_path ca = b_digest b)
   \<and> (\<forall>ca \<in> set (content_artifacts db). \<forall>m \<in> set (manifests db).
         ca_content ca = m_pk m \<longrightarrow> ca_relative_path ca = m_digest m)"

section \<open>Example data\<close>

definition example_hexdigest :: "string \<Rightarrow> bytes \<Rightarrow> string" where
  "example_hexdigest alg data = alg @ ''-'' @ data"

definition example_upload :: upload where
  "example_upload =
     \<lparr>u_pk = 7, u_repository = 1, u_file = ''ab'', u_offset = 2, u_md5 = ''m'', u_sha1 = ''s1'',
      u_sha256 = ''abc'', u_sha384 = ''s3'', u_sha512 = ''s5''\<rparr>"

definition fresh_upload :: upload where
  "fresh_upload =
     \<lparr>u_pk = 8, u_repository = 1, u_file = [], u_offset = 0, u_md5 = [], u_sha1 = [],
      u_sha256 = [], u_sha384 = [], u_sha512 = []\<rparr>"

definition example_db :: db where
  "example_db =
     \<lparr>artifacts = [], blobs = [], manifests = [], tags = [], content_artifacts = [],
      blob_manifests = [], uploads = [example_upload, fresh_upload],
      distributions = (\<lambda>p. if p = ''repo''
                            then Some \<lparr>d_repository = Some 1, d_repository_version = None\<rparr>
                            else None),
      push_enabled = (\<lambda>r. True), versions = (\<lambda>r. [{}]), next_pk = 10\<rparr>"

definition example_request :: "string option \<Rightarrow> string option \<Rightarrow> bytes \<Rightarrow> request" where
  "example_request cr dg body =
     \<lparr>content_range = cr, query_digest = dg, wsgi_input = body, content_type = ''m''\<rparr>"

text \<open>
  A registry with one pushed image: a config blob and a layer blob, a manifest for them, and
  the tag \<open>latest\<close> on the manifest, all in the second version of repository 1.
\<close>

definition example_artifact :: "pk \<Rightarrow> bytes \<Rightarrow> artifact" where
  "example_artifact p data =
     \<lparr>a_pk = p, a_file = data, a_md5 = example_hexdigest ''md5'' data,
      a_sha1 = example_hexdigest ''sha1'' data, a_sha256 = example_hexdigest ''sha256'' data,
      a_sha384 = example_hexdigest ''sha384'' data, a_sha512 = example_hexdigest ''sha512'' data,
      a_size = length data\<rparr>"

definition example_manifest :: manifest where
  "example_manifest =
     \<lparr>m_pk = 6, m_digest = ''sha256:sha256-m1'', m_schema_version = 2, m_media_type = ''m'',
      m_config_blob = 4\<rparr>"

definition example_tag :: tag where
  "example_tag = \<lparr>t_pk = 7, t_name = ''latest'', t_tagged_manifest = 6\<rparr>"

definition example_config_blob :: blob where
  "example_config_blob = \<lparr>b_pk = 4, b_digest = ''sha256:c'', b_media_type = ''config''\<rparr>"

definition example_layer_blob :: blob where
  "example_layer_blob = \<lparr>b_pk = 5, b_digest = ''sha256:l1'', b_media_type = REGULAR_BLOB\<rparr>"

definition example_registry :: db where
  "example_registry =
     \<lparr>artifacts = [example_artifact 1 ''cfg'', example_artifact 2 ''layer'',
                   example_artifact 3 ''m1''],
      blobs = [example_config_blob, example_layer_blob],
      manifests = [example_manifest],
      tags = [example_tag],
      content_artifacts =
        [\<lparr>ca_artifact = 1, ca_content = 4, ca_relative_path = ''sha256:c''\<rparr>,
         \<lparr>ca_artifact = 2, ca_content = 5, ca_relative_path = ''sha256:l1''\<rparr>,
         \<lparr>ca_artifact = 3, ca_content = 6, ca_relative_path = ''sha256:sha256-m1''\<rparr>],
      blob_manifests = [\<lparr>bm_manifest = 6, bm_manifest_blob = 5\<rparr>],
      uploads = [],
      distributions = (\<lambda>p. if p = ''repo''
                            then Some \<lparr>d_repository = Some 1, d_repository_version = None\<rparr>
                            else None),
      push_enabled = (\<lambda>r. True), versions = (\<lambda>r. [{}, {4, 5, 6, 7}]), next_pk = 8\<rparr>"

text \<open>
  Two manifest bodies: \<open>m2\<close> names the config blob, the layer blob and a layer that was
  never pushed; \<open>m3\<close> names a config blob that was never pushed.
\<close>

definition example_layers :: json where
  "example_layers =
     JArray [JObject [(''digest'', JString ''sha256:l1'')],
             JObject [(''digest'', JString ''sha256:nope'')]]"

definition example_document :: json where
  "example_document =
     JObject [(''config'', JObject [(''digest'', JString ''sha256:c'')]),
              (''layers'', example_layers)]"

definition example_document_unresolved :: json where
  "example_document_unresolved =
     JObject [(''config'', JObject [(''digest'', JString ''sha256:missing'')]),
              (''layers'', JArray [])]"

definition example_json_loads :: "bytes \<Rightarrow> json option" where
  "example_json_loads raw =
     (if raw = ''m2'' then Some example_document
      else if raw = ''m3'' then Some example_document_unresolved
      else None)"

definition example_received :: "bytes \<Rightarrow> db" where
  "example_received data =
     example_registry\<lparr>artifacts := artifacts example_registry @ [example_artifact 8 data],
                      next_pk := 9\<rparr>"



section \<open>Properties of queries and row creation\<close>

lemma filter_key_distinct:
  "distinct (map f xs) \<Longrightarrow> x \<in> set xs \<Longrightarrow> filter (\<lambda>y. f y = f x) xs = [x]"
proof (induction xs)
  case Nil
  then show ?case by simp
next
  case (Cons y ys)
  show ?case
  proof (cases "y = x")
    case True
    with Cons.prems have "\<forall>z \<in> set ys. f z \<noteq> f x" by (auto simp: image_iff)
    then have "filter (\<lambda>y. f y = f x) ys = []" by (simp add: filter_empty_conv)
    with True show ?thesis by simp
  next
    case False
    with Cons.prems have "x \<in> set ys" "f y \<noteq> f x" by auto
    with Cons show ?thesis by simp
  qed
qed

lemma objects_get_Inr:
  assumes "objects_get P xs = Inr x"
  shows "x \<in> set xs \<and> P x"
proof -
  from assms have "filter P xs = [x]"
    by (auto simp: objects_get_def split: list.splits)
  then have "x \<in> set (filter P xs)" by simp
  then show ?thesis by simp
qed

lemma objects_get_key:
  "distinct (map f xs) \<Longrightarrow> x \<in> set xs \<Longrightarrow> objects_get (\<lambda>y. f y = f x) xs = Inr x"
  by (simp add: objects_get_def filter_key_distinct)

lemma objects_get_key_ex:
  assumes "distinct (map f xs)" and "k \<in> set (map f xs)"
  shows "\<exists>x \<in> set xs. f x = k \<and> objects_get (\<lambda>y. f y = k) xs = Inr x"
proof -
  from assms(2) obtain x where x: "x \<in> set xs" "f x = k" by auto
  with objects_get_key [OF assms(1) x(1)] show ?thesis by auto
qed

lemma create_artifact_consistent:
  assumes "db_consistent db"
  shows "\<exists>a db1. create_artifact db x = (Inr a, db1) \<and> db_consistent db1
           \<and> a \<in> set (artifacts db1) \<and> a_sha256 a = a_sha256 x
           \<and> blobs db1 = blobs db \<and> manifests db1 = manifests db \<and> tags db1 = tags db
           \<and> content_artifacts db1 = content_artifacts db
           \<and> blob_manifests db1 = blob_manifests db
           \<and> uploads db1 = uploads db \<and> versions db1 = versions db"
proof (cases "a_sha256 x \<in> set (map a_sha256 (artifacts db))")
  case True
  from assms have d: "distinct (map a_sha256 (artifacts db))" by (simp add: db_consistent_def)
  from objects_get_key_ex [OF d True] obtain a where
    "a \<in> set (artifacts db)" "a_sha256 a = a_sha256 x"
    "objects_get (\<lambda>y. a_sha256 y = a_sha256 x) (artifacts db) = Inr a" by blast
  with True assms show ?thesis by (simp add: create_artifact_def artifact_save_def)
next
  case False
  let ?a = "x\<lparr>a_pk := next_pk db\<rparr>"
  let ?db = "db\<lparr>artifacts := artifacts db @ [?a], next_pk := Suc (next_pk db)\<rparr>"
  from False have c: "create_artifact db x = (Inr ?a, ?db)"
    by (simp add: create_artifact_def artifact_save_def Let_def)
  from assms False have "db_consistent ?db"
    unfolding db_consistent_def by (auto simp: less_Suc_eq)
  with c show ?thesis by simp
qed

lemma create_blob_consistent:
  assumes "db_consistent db"
  shows "\<exists>b db2. create_blob db x = (Inr b, db2) \<and> db_consistent db2
           \<and> b \<in> set (blobs db2) \<and> b_digest b = b_digest x
           \<and> artifacts db2 = artifacts db
           \<and> uploads db2 = uploads db \<and> versions db2 = versions db"
proof (cases "b_digest x \<in> set (map b_digest (blobs db))")
  case True
  from assms have d: "distinct (map b_digest (blobs db))" by (simp add: db_consistent_def)
  from objects_get_key_ex [OF d True] obtain b where
    "b \<in> set (blobs db)" "b_digest b = b_digest x"
    "objects_get (\<lambda>y. b_digest y = b_digest x) (blobs db) = Inr b" by blast
  with True assms show ?thesis by (simp add: create_blob_def blob_save_def)
next
  case False
  let ?b = "x\<lparr>b_pk := next_pk db\<rparr>"
  let ?db = "db\<lparr>blobs := blobs db @ [?b], next_pk := Suc (next_pk db)\<rparr>"
  from False have c: "create_blob db x = (Inr ?b, ?db)"
    by (simp add: create_blob_def blob_save_def Let_def)
  from assms False have "db_consistent ?db"
    unfolding db_consistent_def by (auto simp: less_Suc_eq)
  with c show ?thesis by simp
qed

lemma create_manifest_consistent:
  assumes "db_consistent db"
  shows "\<exists>m db2. create_manifest db x = (Inr m, db2) \<and> db_consistent db2
           \<and> m \<in> set (manifests db2) \<and> m_digest m = m_digest x
           \<and> set (manifests db) \<subseteq> set (manifests db2)
           \<and> artifacts db2 = artifacts db \<and> blobs db2 = blobs db \<and> tags db2 = tags db
           \<and> blob_manifests db2 = blob_manifests db
           \<and> uploads db2 = uploads db \<and> versions db2 = versions db"
proof (cases "m_digest x \<in> set (map m_digest (manifests db))")
  case True
  from assms have d: "distinct (map m_digest (manifests db))" by (simp add: db_consistent_def)
  from objects_get_key_ex [OF d True] obtain m where
    "m \<in> set (manifests db)" "m_digest m = m_digest x"
    "objects_get (\<lambda>y. m_digest y = m_digest x) (manifests db) = Inr m" by blast
  with True assms show ?thesis by (simp add: create_manifest_def manifest_save_def)
next
  case False
  let ?m = "x\<lparr>m_pk := next_pk db\<rparr>"
  let ?db = "db\<lparr>manifests := manifests db @ [?m], next_pk := Suc (next_pk db)\<rparr>"
  from False have c: "create_manifest db x = (Inr ?m, ?db)"
    by (simp add: create_manifest_def manifest_save_def Let_def)
  from assms False have "db_consistent ?db"
    unfolding db_consistent_def by (auto simp: less_Suc_eq)
  with c show ?thesis by auto
qed

text \<open>
  After the content artifact of a blob or manifest is created (or found to exist), the
  content has exactly one artifact, so the response constructors find it.
\<close>

lemma artifacts_of_create_content_artifact:
  assumes c: "db_consistent db" and a: "a \<in> set (artifacts db)"
    and rp: "\<forall>ca \<in> set (content_artifacts db). ca_content ca = p \<longrightarrow> ca_relative_path ca = d"
  shows "\<exists>a'. artifacts_of
                 (create_content_artifact db
                    \<lparr>ca_artifact = a_pk a, ca_content = p, ca_relative_path = d\<rparr>) p = [a']"
proof -
  let ?key = "\<lambda>x. (ca_content x, ca_relative_path x)"
  let ?cas = "content_artifacts db"
  from c have dk: "distinct (map ?key ?cas)" and dp: "distinct (map a_pk (artifacts db))"
    and fk: "\<forall>ca \<in> set ?cas. ca_artifact ca \<in> set (map a_pk (artifacts db))"
    by (auto simp: db_consistent_def)
  have same: "filter (\<lambda>ca. ca_content ca = p) ?cas = filter (\<lambda>ca. ?key ca = (p, d)) ?cas"
    using rp by (intro filter_cong) auto
  show ?thesis
  proof (cases "(p, d) \<in> set (map ?key ?cas)")
    case True
    then obtain ca0 where ca0: "ca0 \<in> set ?cas" "?key ca0 = (p, d)" by auto
    from filter_key_distinct [OF dk ca0(1)] ca0(2) same
    have f: "filter (\<lambda>ca. ca_content ca = p) ?cas = [ca0]" by simp
    from fk ca0(1) obtain a0 where a0: "a0 \<in> set (artifacts db)" "a_pk a0 = ca_artifact ca0"
      by auto
    from filter_key_distinct [OF dp a0(1)] a0(2)
    have "filter (\<lambda>x. a_pk x = ca_artifact ca0) (artifacts db) = [a0]" by simp
    with True f show ?thesis
      by (simp add: create_content_artifact_def content_artifact_save_def artifacts_of_def)
  next
    case False
    then have "filter (\<lambda>ca. ?key ca = (p, d)) ?cas = []"
      by (auto simp: filter_empty_conv image_iff)
    with same have f: "filter (\<lambda>ca. ca_content ca = p) ?cas = []" by simp
    from filter_key_distinct [OF dp a]
    have "filter (\<lambda>x. a_pk x = a_pk a) (artifacts db) = [a]" .
    with False f show ?thesis
      by (simp add: create_content_artifact_def content_artifact_save_def artifacts_of_def)
  qed
qed

lemma create_content_artifact_fields:
  "artifacts (create_content_artifact db ca) = artifacts db"
  "blobs (create_content_artifact db ca) = blobs db"
  "manifests (create_content_artifact db ca) = manifests db"
  "tags (create_content_artifact db ca) = tags db"
  "blob_manifests (create_content_artifact db ca) = blob_manifests db"
  "uploads (create_content_artifact db ca) = uploads db"
  "versions (create_content_artifact db ca) = versions db"
  "next_pk (create_content_artifact db ca) = next_pk db"
  by (simp_all add: create_content_artifact_def content_artifact_save_def)

section \<open>Example data evaluated\<close>

lemma example_get_dr_push: "get_dr_push example_db ''repo'' = Inr 1"
  by (simp add: get_dr_push_def example_db_def)

lemma example_upload_get:
  "objects_get (\<lambda>u. u_pk u = 7 \<and> u_repository u = 1) (uploads example_db) = Inr example_upload"
  by (simp add: objects_get_def example_db_def example_upload_def fresh_upload_def)

lemma example_db_consistent: "db_consistent example_db"
  by (simp add: db_consistent_def example_db_def)

section \<open>Blob uploads\<close>

text \<open>
  C1. Finalizing an upload (\<open>BlobUploads.put\<close>) with an asserted digest that does not
  match the upload's accumulated sha256 fails with \<open>DigestMismatch\<close> and leaves the whole
  store as it was: no Blob and no Artifact row is created and the Upload row is still
  there, unconverted.
\<close>

theorem put_digest_mismatch:
  assumes "get_dr_push db path = Inr repository"
    and "query_digest request = Some digest"
    and "objects_get (\<lambda>u. u_pk u = pk \<and> u_repository u = repository) (uploads db) = Inr upload"
    and "u_sha256 upload \<noteq> drop 7 digest"
  shows "BlobUploads_put db request path pk = (Inl DigestMismatch, db)
       \<and> blobs (snd (BlobUploads_put db request path pk)) = blobs db
       \<and> artifacts (snd (BlobUploads_put db request path pk)) = artifacts db
       \<and> upload \<in> set (uploads (snd (BlobUploads_put db request path pk)))"
proof -
  have "BlobUploads_put db request path pk = (Inl DigestMismatch, db)"
    using assms by (simp add: BlobUploads_put_def eval_nat_numeral)
  with objects_get_Inr [OF assms(3)] show ?thesis by simp
qed

theorem put_digest_mismatch_witness:
  "get_dr_push example_db ''repo'' = Inr 1
   \<and> query_digest (example_request None (Some ''sha256:abd'') []) = Some ''sha256:abd''
   \<and> objects_get (\<lambda>u. u_pk u = 7 \<and> u_repository u = 1) (uploads example_db) = Inr example_upload
   \<and> u_sha256 example_upload \<noteq> drop 7 ''sha256:abd''
   \<and> BlobUploads_put example_db (example_request None (Some ''sha256:abd'') []) ''repo'' 7
       = (Inl DigestMismatch, example_db)"
proof -
  have h2: "query_digest (example_request None (Some ''sha256:abd'') []) = Some ''sha256:abd''"
    by (simp add: example_request_def)
  have h4: "u_sha256 example_upload \<noteq> drop 7 ''sha256:abd''"
    by (simp add: example_upload_def)
  show ?thesis
    using put_digest_mismatch [OF example_get_dr_push h2 example_upload_get h4]
      example_get_dr_push h2 example_upload_get h4 by simp
qed

text \<open>
  What \<open>partial_update\<close> does with the start offset, for every request on an existing
  Upload: an offset that differs from the Upload's fails with \<open>OffsetMismatch\<close> and leaves
  the store as it was.
\<close>

lemma get_object_or_404_Inr:
  assumes "get_object_or_404 P xs = Inr x"
  shows "x \<in> set xs \<and> P x"
proof -
  from assms have "objects_get P xs = Inr x"
    by (auto simp: get_object_or_404_def split: sum.splits error.splits)
  then show ?thesis by (rule objects_get_Inr)
qed

lemma partial_update_offset_mismatch:
  assumes "get_dr_push db path = Inr repository"
    and "get_object_or_404 (\<lambda>u. u_repository u = repository \<and> u_pk u = pk) (uploads db)
           = Inr upload"
    and "chunk_range request = (start, end, chunk_size)"
    and "u_offset upload \<noteq> start"
  shows "BlobUploads_partial_update hexdigest db request path pk = (Inl OffsetMismatch, db)"
  using assms by (simp add: BlobUploads_partial_update_def)

text \<open>
  On the chunked path (a Content-Range header, or no digest parameter) an equal offset
  appends: the row stored under the Upload's key afterwards is the Upload with the body
  appended to its bytes and its offset advanced by the length of the body.
\<close>

lemma partial_update_chunked_append:
  assumes r: "get_dr_push db path = Inr repository"
    and g: "get_object_or_404 (\<lambda>u. u_repository u = repository \<and> u_pk u = pk) (uploads db)
           = Inr upload"
    and c: "chunk_range request = (start, end, chunk_size)"
    and o: "u_offset upload = start"
    and w: "\<not> whole request"
  shows "\<exists>upload' db'.
           BlobUploads_partial_update hexdigest db request path pk
             = (Inr (UploadResponse upload' path (length (u_file upload'))), db')
         \<and> u_pk upload' = pk \<and> u_repository upload' = repository
         \<and> u_file upload' = u_file upload @ wsgi_input request
         \<and> u_offset upload' = u_offset upload + int (length (wsgi_input request))
         \<and> u_sha256 upload' = hexdigest ''sha256'' (u_file upload @ wsgi_input request)
         \<and> upload' \<in> set (uploads db')
         \<and> (\<forall>u \<in> set (uploads db'). u_pk u = pk \<longrightarrow> u = upload')
         \<and> length (uploads db') = length (uploads db)"
proof -
  from w c obtain n where n: "chunk_size = Some n"
    by (auto simp: chunk_range_def split: option.splits prod.splits)
  define upload' where "upload' = append_chunk hexdigest upload (wsgi_input request) n"
  define db' where "db' = upload_save db upload'"
  from get_object_or_404_Inr [OF g]
  have u: "upload \<in> set (uploads db)" "u_repository upload = repository" "u_pk upload = pk"
    by simp_all
  have f: "u_pk upload' = pk" "u_repository upload' = repository"
    "u_file upload' = u_file upload @ wsgi_input request"
    "u_offset upload' = u_offset upload + int (length (wsgi_input request))"
    "u_sha256 upload' = hexdigest ''sha256'' (u_file upload @ wsgi_input request)"
    using u by (simp_all add: upload'_def append_chunk_def Let_def)
  have run: "BlobUploads_partial_update hexdigest db request path pk
          = (Inr (UploadResponse upload' path (length (u_file upload'))), db')"
    using r g c o n by (simp add: BlobUploads_partial_update_def Let_def upload'_def db'_def)
  have rows: "uploads db' = map (\<lambda>x. if u_pk x = pk then upload' else x) (uploads db)"
    using f(1) by (simp add: db'_def upload_save_def)
  from u(1) u(3) have stored: "upload' \<in> set (uploads db')"
    unfolding rows by (auto simp: image_iff intro!: bexI [of _ upload])
  have only: "\<forall>u \<in> set (uploads db'). u_pk u = pk \<longrightarrow> u = upload'"
    unfolding rows by auto
  have len: "length (uploads db') = length (uploads db)"
    unfolding rows by simp
  from run f stored only len show ?thesis by blast
qed

text \<open>
  C3. A chunk append (\<open>BlobUploads.partial_update\<close>) whose start offset equals the
  Upload's offset must append the chunk and advance the offset. On the single-shot branch
  it does not: the handler derives the start offset 0, which equals the offset of a fresh
  Upload, passes the offset check, and then raises \<open>UnboundLocalError\<close> at the call of
  \<open>append_chunk\<close>, because \<open>chunk_size\<close> is assigned on the other branch only. The
  Upload keeps its offset and its bytes.
\<close>

theorem partial_update_equal_offset_unbound:
  "chunk_range (example_request None (Some ''sha256:abc'') ''abc'') = (0, 2, None)
   \<and> get_object_or_404 (\<lambda>u. u_repository u = 1 \<and> u_pk u = 8) (uploads example_db)
       = Inr fresh_upload
   \<and> u_offset fresh_upload = 0
   \<and> BlobUploads_partial_update example_hexdigest example_db
        (example_request None (Some ''sha256:abc'') ''abc'') ''repo'' 8
       = (Inl UnboundLocalError, example_db)"
  by (simp add: BlobUploads_partial_update_def chunk_range_def whole_def
      example_request_def get_object_or_404_def objects_get_def example_db_def
      example_upload_def fresh_upload_def get_dr_push_def)

text \<open>
  C7. A single-shot upload (\<open>partial_update\<close> with a digest query parameter and no
  Content-Range header) on a fresh Upload: the source takes the whole-body branch, where
  \<open>start\<close> and \<open>end\<close> are assigned and \<open>chunk_size\<close> is not, and the call of
  \<open>append_chunk\<close> raises \<open>UnboundLocalError\<close>. Nothing is appended and nothing is
  finalized.
\<close>

theorem partial_update_whole_unbound:
  "chunk_range (example_request None (Some ''sha256:q'') ''xyz'') = (0, 2, None)
   \<and> BlobUploads_partial_update example_hexdigest example_db
        (example_request None (Some ''sha256:q'') ''xyz'') ''repo'' 8
       = (Inl UnboundLocalError, example_db)"
  by (simp add: BlobUploads_partial_update_def chunk_range_def whole_def
      example_request_def get_object_or_404_def objects_get_def example_db_def
      example_upload_def fresh_upload_def get_dr_push_def)

text \<open>
  C10. \<open>BlobUploads.put\<close> compares the upload's sha256 with the asserted digest minus its
  first seven characters, whatever those characters are. On a consistent store, for every
  asserted string whose characters from index 7 on equal the upload's sha256, finalization
  succeeds with status 201, the Blob it returns is keyed by the asserted string as given,
  the Blob is in the new repository version, and the Upload is deleted.
\<close>

theorem put_prefix_unchecked:
  assumes c: "db_consistent db"
    and r: "get_dr_push db path = Inr repository"
    and q: "query_digest request = Some digest"
    and u: "objects_get (\<lambda>u. u_pk u = pk \<and> u_repository u = repository) (uploads db) = Inr upload"
    and m: "drop 7 digest = u_sha256 upload"
  shows "\<exists>blob size db'.
           BlobUploads_put db request path pk = (Inr (BlobResponse blob path 201 size), db')
         \<and> b_digest blob = digest
         \<and> blob \<in> set (blobs db')
         \<and> b_pk blob \<in> last (versions db' repository)
         \<and> upload \<notin> set (uploads db')"
proof -
  let ?x = "\<lparr>a_pk = 0, a_file = u_file upload, a_md5 = u_md5 upload,
             a_sha1 = u_sha1 upload, a_sha256 = u_sha256 upload,
             a_sha384 = u_sha384 upload, a_sha512 = u_sha512 upload,
             a_size = length (u_file upload)\<rparr>"
  from create_artifact_consistent [OF c, of ?x] obtain a db1 where
    1: "create_artifact db ?x = (Inr a, db1)" "db_consistent db1" "a \<in> set (artifacts db1)"
    by blast
  let ?y = "\<lparr>b_pk = 0, b_digest = digest, b_media_type = REGULAR_BLOB\<rparr>"
  from create_blob_consistent [OF 1(2), of ?y] obtain b db2 where
    2: "create_blob db1 ?y = (Inr b, db2)" "db_consistent db2" "b \<in> set (blobs db2)"
       "b_digest b = digest" "artifacts db2 = artifacts db1"
    by auto
  let ?db3 = "create_content_artifact db2
                \<lparr>ca_artifact = a_pk a, ca_content = b_pk b, ca_relative_path = digest\<rparr>"
  let ?db4 = "new_version ?db3 repository
                (\<lambda>c. add_content c (map b_pk (filter (\<lambda>x. b_pk x = b_pk b) (blobs ?db3))))"
  let ?db5 = "upload_delete ?db4 upload"
  from 1(3) 2(5) have a2: "a \<in> set (artifacts db2)" by simp
  from 2(2) 2(3) 2(4)
  have rp: "\<forall>ca \<in> set (content_artifacts db2). ca_content ca = b_pk b \<longrightarrow> ca_relative_path ca = digest"
    unfolding db_consistent_def by blast
  from artifacts_of_create_content_artifact [OF 2(2) a2 rp]
  obtain a' where a': "artifacts_of ?db3 (b_pk b) = [a']" by auto
  have "artifacts_of ?db5 (b_pk b) = artifacts_of ?db3 (b_pk b)"
    by (simp add: artifacts_of_def upload_delete_def new_version_def)
  with a' have resp: "mk_BlobResponse ?db5 b path 201 = Inr (BlobResponse b path 201 (a_size a'))"
    by (simp add: mk_BlobResponse_def objects_get_def)
  have put: "BlobUploads_put db request path pk = (Inr (BlobResponse b path 201 (a_size a')), ?db5)"
    using r q u m [symmetric] 1(1) 2(1) resp
    by (simp add: BlobUploads_put_def eval_nat_numeral Let_def)
  have bl: "b \<in> set (blobs ?db5)"
    using 2(3) by (simp add: upload_delete_def new_version_def create_content_artifact_fields)
  have ver: "b_pk b \<in> last (versions ?db5 repository)"
    using 2(3)
    by (auto simp: upload_delete_def new_version_def add_content_def
        create_content_artifact_fields)
  from objects_get_Inr [OF u] have "u_pk upload = pk" by simp
  then have del: "upload \<notin> set (uploads ?db5)"
    by (simp add: upload_delete_def)
  from put 2(4) bl ver del show ?thesis by blast
qed

theorem put_prefix_unchecked_witness:
  "db_consistent example_db
   \<and> get_dr_push example_db ''repo'' = Inr 1
   \<and> query_digest (example_request None (Some ''XXXXXXXabc'') []) = Some ''XXXXXXXabc''
   \<and> objects_get (\<lambda>u. u_pk u = 7 \<and> u_repository u = 1) (uploads example_db) = Inr example_upload
   \<and> drop 7 ''XXXXXXXabc'' = u_sha256 example_upload
   \<and> (\<exists>blob size db'.
         BlobUploads_put example_db (example_request None (Some ''XXXXXXXabc'') []) ''repo'' 7
           = (Inr (BlobResponse blob ''repo'' 201 size), db')
       \<and> b_digest blob = ''XXXXXXXabc''
       \<and> blob \<in> set (blobs db')
       \<and> b_pk blob \<in> last (versions db' 1)
       \<and> example_upload \<notin> set (uploads db'))"
proof -
  have h3: "query_digest (example_request None (Some ''XXXXXXXabc'') []) = Some ''XXXXXXXabc''"
    by (simp add: example_request_def)
  have h5: "drop 7 ''XXXXXXXabc'' = u_sha256 example_upload"
    by (simp add: example_upload_def)
  from put_prefix_unchecked [OF example_db_consistent example_get_dr_push h3 example_upload_get h5]
    example_db_consistent example_get_dr_push h3 example_upload_get h5
  show ?thesis by blast
qed

section \<open>Manifests\<close>

lemma create_artifact_fields:
  assumes "create_artifact db x = (r, db1)"
  shows "blobs db1 = blobs db \<and> manifests db1 = manifests db \<and> tags db1 = tags db
       \<and> content_artifacts db1 = content_artifacts db \<and> blob_manifests db1 = blob_manifests db
       \<and> uploads db1 = uploads db \<and> versions db1 = versions db"
  using assms by (auto simp: create_artifact_def artifact_save_def Let_def split: if_splits)

lemma create_tag_fields:
  "artifacts (create_tag db t) = artifacts db"
  "blobs (create_tag db t) = blobs db"
  "manifests (create_tag db t) = manifests db"
  "content_artifacts (create_tag db t) = content_artifacts db"
  "blob_manifests (create_tag db t) = blob_manifests db"
  "uploads (create_tag db t) = uploads db"
  "versions (create_tag db t) = versions db"
  by (simp_all add: create_tag_def tag_save_def Let_def)

lemma bulk_create_fields:
  "artifacts (bulk_create_ignore_conflicts db thru) = artifacts db"
  "blobs (bulk_create_ignore_conflicts db thru) = blobs db"
  "manifests (bulk_create_ignore_conflicts db thru) = manifests db"
  "tags (bulk_create_ignore_conflicts db thru) = tags db"
  "content_artifacts (bulk_create_ignore_conflicts db thru) = content_artifacts db"
  "uploads (bulk_create_ignore_conflicts db thru) = uploads db"
  "versions (bulk_create_ignore_conflicts db thru) = versions db"
  "next_pk (bulk_create_ignore_conflicts db thru) = next_pk db"
  "set (blob_manifests (bulk_create_ignore_conflicts db thru)) = set (blob_manifests db) \<union> set thru"
  by (auto simp: bulk_create_ignore_conflicts_def)

lemma new_version_fields:
  "artifacts (new_version db r f) = artifacts db"
  "blobs (new_version db r f) = blobs db"
  "manifests (new_version db r f) = manifests db"
  "tags (new_version db r f) = tags db"
  "content_artifacts (new_version db r f) = content_artifacts db"
  "blob_manifests (new_version db r f) = blob_manifests db"
  "uploads (new_version db r f) = uploads db"
  by (simp_all add: new_version_def)

text \<open>After \<open>tag.save()\<close> or its \<open>IntegrityError\<close>, exactly one Tag row has the name and manifest.\<close>

lemma create_tag_unique:
  assumes d: "distinct (map (\<lambda>x. (t_name x, t_tagged_manifest x)) (tags db))"
    and p: "distinct (map t_pk (tags db))"
    and f: "\<forall>t \<in> set (tags db). t_pk t < next_pk db"
  shows "\<exists>t. filter (\<lambda>t. t_name t = n \<and> t_tagged_manifest t = mp)
               (tags (create_tag db \<lparr>t_pk = 0, t_name = n, t_tagged_manifest = mp\<rparr>)) = [t]
           \<and> distinct (map t_pk (tags (create_tag db \<lparr>t_pk = 0, t_name = n, t_tagged_manifest = mp\<rparr>)))
           \<and> set (tags db) \<subseteq> set (tags (create_tag db \<lparr>t_pk = 0, t_name = n, t_tagged_manifest = mp\<rparr>))"
proof (cases "(n, mp) \<in> set (map (\<lambda>x. (t_name x, t_tagged_manifest x)) (tags db))")
  case True
  then obtain t0 where t0: "t0 \<in> set (tags db)" "t_name t0 = n" "t_tagged_manifest t0 = mp"
    by auto
  from filter_key_distinct [OF d t0(1)] t0(2,3)
  have "filter (\<lambda>t. t_name t = n \<and> t_tagged_manifest t = mp) (tags db) = [t0]" by simp
  moreover from True
  have "tags (create_tag db \<lparr>t_pk = 0, t_name = n, t_tagged_manifest = mp\<rparr>) = tags db"
    by (simp add: create_tag_def tag_save_def)
  ultimately show ?thesis using p by simp
next
  case False
  then have e: "filter (\<lambda>t. t_name t = n \<and> t_tagged_manifest t = mp) (tags db) = []"
    by (auto simp: filter_empty_conv image_iff)
  from f have fresh: "next_pk db \<notin> t_pk ` set (tags db)" by auto
  from False
  have "tags (create_tag db \<lparr>t_pk = 0, t_name = n, t_tagged_manifest = mp\<rparr>)
          = tags db @ [\<lparr>t_pk = next_pk db, t_name = n, t_tagged_manifest = mp\<rparr>]"
    by (simp add: create_tag_def tag_save_def Let_def)
  with e fresh p show ?thesis by auto
qed

text \<open>
  The content of the version that \<open>Manifests.put\<close> publishes: of the Tag rows with the
  pushed name, exactly the one for the pushed manifest is a member.
\<close>

lemma tag_swap_content:
  assumes p: "distinct (map t_pk ts)"
    and f: "filter (\<lambda>t. t_name t = n \<and> t_tagged_manifest t = mp) ts = [t]"
    and t': "t' \<in> set ts" "t_name t' = n"
  shows "t_pk t' \<in> add_content
                      (remove_content (add_content c ms)
                         (map t_pk (filter (\<lambda>t. t_name t = n) ts)))
                      (map t_pk (filter (\<lambda>t. t_name t = n \<and> t_tagged_manifest t = mp) ts))
           \<longleftrightarrow> t' = t"
proof -
  from f have "t \<in> set (filter (\<lambda>t. t_name t = n \<and> t_tagged_manifest t = mp) ts)" by simp
  then have t: "t \<in> set ts" by simp
  from p have inj: "inj_on t_pk (set ts)" by (simp add: distinct_map)
  have "t_pk t' = t_pk t \<longleftrightarrow> t' = t"
    using inj t t'(1) by (auto dest: inj_onD)
  moreover have "t_pk t' \<in> set (map t_pk (filter (\<lambda>t. t_name t = n) ts))"
    using t' by auto
  ultimately show ?thesis
    by (simp add: add_content_def remove_content_def f)
qed

text \<open>
  \<open>Manifests.put\<close> from the creation of the manifest row on: with a well-formed
  \<open>layers\<close> list it succeeds on a consistent store, whatever the layer digests are.
\<close>

lemma Manifests_put_store_ok:
  assumes c: "db_consistent db1" and a: "artifact \<in> set (artifacts db1)"
    and l1: "py_get content_data ''layers'' = Inr layers"
    and l2: "py_iter layers = Inr layer_list"
    and l3: "layer_digests layer_list [] = Inr digests"
  shows "\<exists>manifest db' content.
           Manifests_put_store db1 repository path pk media_type artifact content_data config_blob
             = (Inr (ManifestResponse manifest path 201 0), db')
         \<and> m_digest manifest = ''sha256:'' @ a_sha256 artifact
         \<and> manifest \<in> set (manifests db')
         \<and> set (manifests db1) \<subseteq> set (manifests db')
         \<and> distinct (map m_pk (manifests db'))
         \<and> blobs db' = blobs db1
         \<and> set (blob_manifests db')
             = set (blob_manifests db1)
               \<union> (\<lambda>b. \<lparr>bm_manifest = m_pk manifest, bm_manifest_blob = b_pk b\<rparr>)
                   ` {b \<in> set (blobs db1). JString (b_digest b) \<in> set digests}
         \<and> set (tags db1) \<subseteq> set (tags db')
         \<and> versions db' repository = versions db1 repository @ [content]
         \<and> (\<exists>t. t \<in> set (tags db') \<and> t_name t = pk \<and> t_tagged_manifest t = m_pk manifest
                \<and> t_pk t \<in> content
                \<and> (\<forall>t' \<in> set (tags db'). t_name t' = pk \<and> t_pk t' \<in> content \<longrightarrow> t' = t))"
proof -
  let ?x = "\<lparr>m_pk = 0, m_digest = ''sha256:'' @ a_sha256 artifact, m_schema_version = 2,
             m_media_type = media_type, m_config_blob = b_pk config_blob\<rparr>"
  from create_manifest_consistent [OF c, of ?x] obtain manifest db2 where
    2: "create_manifest db1 ?x = (Inr manifest, db2)" "db_consistent db2"
       "manifest \<in> set (manifests db2)" "m_digest manifest = ''sha256:'' @ a_sha256 artifact"
       "set (manifests db1) \<subseteq> set (manifests db2)"
       "artifacts db2 = artifacts db1" "blobs db2 = blobs db1" "tags db2 = tags db1"
       "blob_manifests db2 = blob_manifests db1" "versions db2 = versions db1"
    by auto
  define db3 where "db3 = create_content_artifact db2
                \<lparr>ca_artifact = a_pk artifact, ca_content = m_pk manifest,
                 ca_relative_path = m_digest manifest\<rparr>"
  define thru where "thru = map (\<lambda>b. \<lparr>bm_manifest = m_pk manifest, bm_manifest_blob = b_pk b\<rparr>)
                              (filter (\<lambda>b. JString (b_digest b) \<in> set digests) (blobs db3))"
  define db4 where "db4 = bulk_create_ignore_conflicts db3 thru"
  define db5 where
    "db5 = create_tag db4 \<lparr>t_pk = 0, t_name = pk, t_tagged_manifest = m_pk manifest\<rparr>"
  define f where "f = (\<lambda>c. add_content
                  (remove_content
                     (add_content c
                        (map m_pk (filter (\<lambda>m. m_digest m = m_digest manifest) (manifests db5))))
                     (map t_pk (filter (\<lambda>t. t_name t = pk) (tags db5))))
                  (map t_pk (filter (\<lambda>t. t_name t = pk \<and> t_tagged_manifest t = m_pk manifest)
                               (tags db5))))"
  define db6 where "db6 = new_version db5 repository f"
  define content where
    "content = f (case latest_version db5 repository of None \<Rightarrow> {} | Some c \<Rightarrow> c)"
  have put0: "Manifests_put_store db1 repository path pk media_type artifact content_data
                config_blob = (mk_ManifestResponse db6 manifest path 201, db6)"
    unfolding Manifests_put_store_def db6_def f_def db5_def db4_def thru_def db3_def Let_def
    using 2(1) l1 l2 l3 by simp
  from a 2(6) have a2: "artifact \<in> set (artifacts db2)" by simp
  from 2(2) 2(3)
  have rp: "\<forall>ca \<in> set (content_artifacts db2).
              ca_content ca = m_pk manifest \<longrightarrow> ca_relative_path ca = m_digest manifest"
    unfolding db_consistent_def by blast
  from artifacts_of_create_content_artifact [OF 2(2) a2 rp]
  obtain a' where a': "artifacts_of db3 (m_pk manifest) = [a']" unfolding db3_def by auto
  have f3: "artifacts db3 = artifacts db2" "blobs db3 = blobs db2" "manifests db3 = manifests db2"
    "tags db3 = tags db2" "blob_manifests db3 = blob_manifests db2"
    "versions db3 = versions db2" "next_pk db3 = next_pk db2"
    unfolding db3_def by (simp_all add: create_content_artifact_fields)
  have f4: "artifacts db4 = artifacts db3" "blobs db4 = blobs db3" "manifests db4 = manifests db3"
    "tags db4 = tags db3" "content_artifacts db4 = content_artifacts db3"
    "versions db4 = versions db3" "next_pk db4 = next_pk db3"
    "set (blob_manifests db4) = set (blob_manifests db3) \<union> set thru"
    unfolding db4_def by (simp_all add: bulk_create_fields)
  have f5: "artifacts db5 = artifacts db4" "blobs db5 = blobs db4" "manifests db5 = manifests db4"
    "content_artifacts db5 = content_artifacts db4" "blob_manifests db5 = blob_manifests db4"
    "versions db5 = versions db4"
    unfolding db5_def by (simp_all add: create_tag_fields)
  have f6: "artifacts db6 = artifacts db5" "blobs db6 = blobs db5" "manifests db6 = manifests db5"
    "tags db6 = tags db5" "content_artifacts db6 = content_artifacts db5"
    "blob_manifests db6 = blob_manifests db5"
    unfolding db6_def by (simp_all add: new_version_fields)
  have v6: "versions db6 repository = versions db1 repository @ [content]"
    unfolding db6_def content_def new_version_def using f5(6) f4(6) f3(6) 2(10) by simp
  have "artifacts_of db6 (m_pk manifest) = artifacts_of db3 (m_pk manifest)"
    unfolding artifacts_of_def using f6(1,5) f5(1,4) f4(1,5) by simp
  with a' have resp: "mk_ManifestResponse db6 manifest path 201
                        = Inr (ManifestResponse manifest path 201 0)"
    by (simp add: mk_ManifestResponse_def objects_get_def)
  from 2(2) have "distinct (map (\<lambda>x. (t_name x, t_tagged_manifest x)) (tags db2))"
    "distinct (map t_pk (tags db2))" "\<forall>t \<in> set (tags db2). t_pk t < next_pk db2"
    unfolding db_consistent_def by blast+
  with f4(4,7) f3(4,7) have "distinct (map (\<lambda>x. (t_name x, t_tagged_manifest x)) (tags db4))"
    "distinct (map t_pk (tags db4))" "\<forall>t \<in> set (tags db4). t_pk t < next_pk db4"
    by simp_all
  from create_tag_unique [OF this, of pk "m_pk manifest"] obtain t where
    t: "filter (\<lambda>t. t_name t = pk \<and> t_tagged_manifest t = m_pk manifest) (tags db5) = [t]"
       "distinct (map t_pk (tags db5))" "set (tags db4) \<subseteq> set (tags db5)"
    unfolding db5_def by blast
  from t(1) have "t \<in> set (filter (\<lambda>t. t_name t = pk \<and> t_tagged_manifest t = m_pk manifest)
                              (tags db5))" by simp
  then have tt: "t \<in> set (tags db5)" "t_name t = pk" "t_tagged_manifest t = m_pk manifest"
    by simp_all
  have swap: "t_pk t' \<in> content \<longleftrightarrow> t' = t" if "t' \<in> set (tags db5)" "t_name t' = pk" for t'
    unfolding content_def f_def by (rule tag_swap_content [OF t(2) t(1) that])
  have m6: "manifests db6 = manifests db2" using f6(3) f5(3) f4(3) f3(3) by simp
  have b6: "blobs db6 = blobs db1" using f6(2) f5(2) f4(2) f3(2) 2(7) by simp
  have "set thru = (\<lambda>b. \<lparr>bm_manifest = m_pk manifest, bm_manifest_blob = b_pk b\<rparr>)
                     ` {b \<in> set (blobs db1). JString (b_digest b) \<in> set digests}"
    unfolding thru_def using f3(2) 2(7) by auto
  with f6(6) f5(5) f4(8) f3(5) 2(9)
  have bm6: "set (blob_manifests db6)
               = set (blob_manifests db1)
                 \<union> (\<lambda>b. \<lparr>bm_manifest = m_pk manifest, bm_manifest_blob = b_pk b\<rparr>)
                     ` {b \<in> set (blobs db1). JString (b_digest b) \<in> set digests}"
    by simp
  from 2(2) have dm: "distinct (map m_pk (manifests db2))" unfolding db_consistent_def by blast
  have sub: "set (tags db1) \<subseteq> set (tags db6)"
    using t(3) f4(4) f3(4) 2(8) f6(4) by simp
  have t6: "t \<in> set (tags db6)" using tt(1) f6(4) by simp
  have tc: "t_pk t \<in> content" using swap [OF tt(1) tt(2)] by simp
  have uniq: "\<forall>t' \<in> set (tags db6). t_name t' = pk \<and> t_pk t' \<in> content \<longrightarrow> t' = t"
    using swap f6(4) by auto
  have m6': "manifest \<in> set (manifests db6)" "set (manifests db1) \<subseteq> set (manifests db6)"
    "distinct (map m_pk (manifests db6))"
    using m6 2(3) 2(5) dm by simp_all
  have one: "\<exists>t. t \<in> set (tags db6) \<and> t_name t = pk \<and> t_tagged_manifest t = m_pk manifest
               \<and> t_pk t \<in> content
               \<and> (\<forall>t' \<in> set (tags db6). t_name t' = pk \<and> t_pk t' \<in> content \<longrightarrow> t' = t)"
    using t6 tt(2,3) tc uniq by blast
  from put0 resp
  have put: "Manifests_put_store db1 repository path pk media_type artifact content_data config_blob
               = (Inr (ManifestResponse manifest path 201 0), db6)" by simp
  show ?thesis
    apply (rule exI [of _ manifest], rule exI [of _ db6], rule exI [of _ content])
    apply (intro conjI)
    apply (rule put)
    apply (rule 2(4))
    apply (rule m6'(1))
    apply (rule m6'(2))
    apply (rule m6'(3))
    apply (rule b6)
    apply (rule bm6)
    apply (rule sub)
    apply (rule v6)
    apply (rule one)
    done
qed

lemma Manifests_put_ok:
  assumes c: "db_consistent db"
    and r: "get_dr_push db path = Inr repository"
    and ra: "receive_artifact hexdigest db (wsgi_input request) = (Inr artifact, db1)"
    and j: "json_loads (a_file artifact) = Some content_data"
    and g1: "py_get content_data ''config'' = Inr config_layer"
    and g2: "py_get config_layer ''digest'' = Inr config_digest"
    and cb: "objects_get (\<lambda>b. JString (b_digest b) = config_digest) (blobs db1) = Inr config_blob"
    and l1: "py_get content_data ''layers'' = Inr layers"
    and l2: "py_iter layers = Inr layer_list"
    and l3: "layer_digests layer_list [] = Inr digests"
  shows "\<exists>manifest db' content.
           Manifests_put hexdigest json_loads db request path pk
             = (Inr (ManifestResponse manifest path 201 0), db')
         \<and> m_digest manifest = ''sha256:'' @ a_sha256 artifact
         \<and> manifest \<in> set (manifests db')
         \<and> set (manifests db) \<subseteq> set (manifests db')
         \<and> distinct (map m_pk (manifests db'))
         \<and> blobs db' = blobs db
         \<and> set (blob_manifests db')
             = set (blob_manifests db)
               \<union> (\<lambda>b. \<lparr>bm_manifest = m_pk manifest, bm_manifest_blob = b_pk b\<rparr>)
                   ` {b \<in> set (blobs db). JString (b_digest b) \<in> set digests}
         \<and> set (tags db) \<subseteq> set (tags db')
         \<and> versions db' repository = versions db repository @ [content]
         \<and> (\<exists>t. t \<in> set (tags db') \<and> t_name t = pk \<and> t_tagged_manifest t = m_pk manifest
                \<and> t_pk t \<in> content
                \<and> (\<forall>t' \<in> set (tags db'). t_name t' = pk \<and> t_pk t' \<in> content \<longrightarrow> t' = t))"
proof -
  let ?x = "\<lparr>a_pk = 0, a_file = wsgi_input request,
             a_md5 = hexdigest ''md5'' (wsgi_input request),
             a_sha1 = hexdigest ''sha1'' (wsgi_input request),
             a_sha256 = hexdigest ''sha256'' (wsgi_input request),
             a_sha384 = hexdigest ''sha384'' (wsgi_input request),
             a_sha512 = hexdigest ''sha512'' (wsgi_input request),
             a_size = length (wsgi_input request)\<rparr>"
  from ra have ca: "create_artifact db ?x = (Inr artifact, db1)"
    by (simp add: receive_artifact_def)
  from create_artifact_consistent [OF c, of ?x] ca
  have 1: "db_consistent db1" "artifact \<in> set (artifacts db1)" "blobs db1 = blobs db"
    "manifests db1 = manifests db" "tags db1 = tags db" "blob_manifests db1 = blob_manifests db"
    "versions db1 = versions db"
    by auto
  have put: "Manifests_put hexdigest json_loads db request path pk
               = Manifests_put_store db1 repository path pk (content_type request) artifact
                   content_data config_blob"
    using r ra j g1 g2 cb by (simp add: Manifests_put_def)
  from Manifests_put_store_ok [OF 1(1) 1(2) l1 l2 l3, of repository path pk
      "content_type request" config_blob]
  show ?thesis unfolding put 1(3) 1(4) 1(5) 1(6) 1(7) .
qed

text \<open>
  C2. Ingesting a manifest (\<open>Manifests.put\<close>) whose config digest names no Blob fails with
  \<open>UnresolvedReference\<close>; the only row written is the artifact that \<open>receive_artifact\<close>
  stored, so afterwards there is no new Manifest row, no new Tag row, no new link and no new
  repository version.
\<close>

theorem put_unresolved_config:
  assumes "get_dr_push db path = Inr repository"
    and "receive_artifact hexdigest db (wsgi_input request) = (Inr artifact, db1)"
    and "json_loads (a_file artifact) = Some content_data"
    and "py_get content_data ''config'' = Inr config_layer"
    and "py_get config_layer ''digest'' = Inr config_digest"
    and "\<forall>b \<in> set (blobs db). JString (b_digest b) \<noteq> config_digest"
  shows "Manifests_put hexdigest json_loads db request path pk = (Inl UnresolvedReference, db1)
       \<and> manifests db1 = manifests db \<and> tags db1 = tags db \<and> versions db1 = versions db
       \<and> blob_manifests db1 = blob_manifests db
       \<and> content_artifacts db1 = content_artifacts db
       \<and> blobs db1 = blobs db"
proof -
  from assms(2) have f: "blobs db1 = blobs db \<and> manifests db1 = manifests db \<and> tags db1 = tags db
       \<and> content_artifacts db1 = content_artifacts db \<and> blob_manifests db1 = blob_manifests db
       \<and> uploads db1 = uploads db \<and> versions db1 = versions db"
    unfolding receive_artifact_def by (rule create_artifact_fields)
  from assms(6) f
  have "filter (\<lambda>b. JString (b_digest b) = config_digest) (blobs db1) = []"
    by (simp add: filter_empty_conv)
  then have "objects_get (\<lambda>b. JString (b_digest b) = config_digest) (blobs db1)
               = Inl DoesNotExist"
    by (simp add: objects_get_def)
  with assms(1-5)
  have "Manifests_put hexdigest json_loads db request path pk = (Inl UnresolvedReference, db1)"
    by (simp add: Manifests_put_def)
  with f show ?thesis by simp
qed

lemma example_registry_consistent: "db_consistent example_registry"
  by (simp add: db_consistent_def example_registry_def example_artifact_def
      example_hexdigest_def example_config_blob_def example_layer_blob_def
      example_manifest_def example_tag_def)

lemma example_registry_get_dr_push: "get_dr_push example_registry ''repo'' = Inr 1"
  by (simp add: get_dr_push_def example_registry_def)

lemma example_receive_m2:
  "receive_artifact example_hexdigest example_registry
     (wsgi_input (example_request None None ''m2''))
     = (Inr (example_artifact 8 ''m2''), example_received ''m2'')"
  by (simp add: receive_artifact_def create_artifact_def artifact_save_def Let_def
      example_request_def
      example_registry_def example_artifact_def example_hexdigest_def example_received_def)

lemma example_receive_m3:
  "receive_artifact example_hexdigest example_registry
     (wsgi_input (example_request None None ''m3''))
     = (Inr (example_artifact 8 ''m3''), example_received ''m3'')"
  by (simp add: receive_artifact_def create_artifact_def artifact_save_def Let_def
      example_request_def
      example_registry_def example_artifact_def example_hexdigest_def example_received_def)

lemma example_loads_m3:
  "example_json_loads (a_file (example_artifact 8 ''m3'')) = Some example_document_unresolved"
  by (simp add: example_json_loads_def example_artifact_def)

lemma example_loads_m2:
  "example_json_loads (a_file (example_artifact 8 ''m2'')) = Some example_document"
  by (simp add: example_json_loads_def example_artifact_def)

theorem put_unresolved_config_witness:
  "get_dr_push example_registry ''repo'' = Inr 1
   \<and> receive_artifact example_hexdigest example_registry
        (wsgi_input (example_request None None ''m3''))
       = (Inr (example_artifact 8 ''m3''), example_received ''m3'')
   \<and> example_json_loads (a_file (example_artifact 8 ''m3'')) = Some example_document_unresolved
   \<and> py_get example_document_unresolved ''config''
       = Inr (JObject [(''digest'', JString ''sha256:missing'')])
   \<and> py_get (JObject [(''digest'', JString ''sha256:missing'')]) ''digest''
       = Inr (JString ''sha256:missing'')
   \<and> ''sha256:missing'' \<notin> set (map b_digest (blobs example_registry))
   \<and> Manifests_put example_hexdigest example_json_loads example_registry
        (example_request None None ''m3'') ''repo'' ''latest''
       = (Inl UnresolvedReference, example_received ''m3'')
   \<and> manifests (example_received ''m3'') = manifests example_registry
   \<and> tags (example_received ''m3'') = tags example_registry
   \<and> versions (example_received ''m3'') = versions example_registry"
proof -
  have h2: "receive_artifact example_hexdigest example_registry
        (wsgi_input (example_request None None ''m3''))
       = (Inr (example_artifact 8 ''m3''), example_received ''m3'')"
    by (rule example_receive_m3)
  have h4: "py_get example_document_unresolved ''config''
       = Inr (JObject [(''digest'', JString ''sha256:missing'')])"
    by (simp add: example_document_unresolved_def)
  have h5: "py_get (JObject [(''digest'', JString ''sha256:missing'')]) ''digest''
       = Inr (JString ''sha256:missing'')" by simp
  have h6': "''sha256:missing'' \<notin> set (map b_digest (blobs example_registry))"
    by (simp add: example_registry_def example_config_blob_def example_layer_blob_def)
  have h6: "\<forall>b \<in> set (blobs example_registry).
                  JString (b_digest b) \<noteq> JString ''sha256:missing''"
    by (simp add: example_registry_def example_config_blob_def example_layer_blob_def)
  from put_unresolved_config [where json_loads = example_json_loads and pk = "''latest''",
      OF example_registry_get_dr_push h2 example_loads_m3 h4 h5 h6]
    example_registry_get_dr_push h2 example_loads_m3 h4 h5 h6'
  show ?thesis by simp
qed

text \<open>
  C8. Ingesting a manifest (\<open>Manifests.put\<close>) on a consistent store, with a config blob
  that resolves and a well-formed layers list: whether or not the layer digests name Blobs,
  the ingestion succeeds with status 201, the manifest row exists afterwards, and the links
  added are exactly those from the manifest to the Blobs whose digest is among the layer
  digests. A layer digest that names no Blob adds nothing and fails nothing.
\<close>

theorem put_skips_unresolved_layers:
  assumes "db_consistent db"
    and "get_dr_push db path = Inr repository"
    and "receive_artifact hexdigest db (wsgi_input request) = (Inr artifact, db1)"
    and "json_loads (a_file artifact) = Some content_data"
    and "py_get content_data ''config'' = Inr config_layer"
    and "py_get config_layer ''digest'' = Inr config_digest"
    and "objects_get (\<lambda>b. JString (b_digest b) = config_digest) (blobs db1) = Inr config_blob"
    and "py_get content_data ''layers'' = Inr layers"
    and "py_iter layers = Inr layer_list"
    and "layer_digests layer_list [] = Inr digests"
  shows "\<exists>manifest db'.
           Manifests_put hexdigest json_loads db request path pk
             = (Inr (ManifestResponse manifest path 201 0), db')
         \<and> manifest \<in> set (manifests db')
         \<and> m_digest manifest = ''sha256:'' @ a_sha256 artifact
         \<and> set (blob_manifests db')
             = set (blob_manifests db)
               \<union> (\<lambda>b. \<lparr>bm_manifest = m_pk manifest, bm_manifest_blob = b_pk b\<rparr>)
                   ` {b \<in> set (blobs db). JString (b_digest b) \<in> set digests}"
  using Manifests_put_ok [where json_loads = json_loads and pk = pk, OF assms] by blast

lemma example_m2_facts:
  "py_get example_document ''config'' = Inr (JObject [(''digest'', JString ''sha256:c'')])"
  "py_get (JObject [(''digest'', JString ''sha256:c'')]) ''digest'' = Inr (JString ''sha256:c'')"
  "objects_get (\<lambda>b. JString (b_digest b) = JString ''sha256:c'') (blobs (example_received ''m2''))
     = Inr example_config_blob"
  "py_get example_document ''layers'' = Inr example_layers"
  "py_iter example_layers
     = Inr [JObject [(''digest'', JString ''sha256:l1'')],
            JObject [(''digest'', JString ''sha256:nope'')]]"
  "layer_digests [JObject [(''digest'', JString ''sha256:l1'')],
                  JObject [(''digest'', JString ''sha256:nope'')]] []
     = Inr [JString ''sha256:l1'', JString ''sha256:nope'']"
  by (simp_all add: example_document_def example_layers_def objects_get_def
      example_received_def example_registry_def example_config_blob_def example_layer_blob_def)

theorem put_skips_unresolved_layers_witness:
  "db_consistent example_registry
   \<and> get_dr_push example_registry ''repo'' = Inr 1
   \<and> receive_artifact example_hexdigest example_registry
        (wsgi_input (example_request None None ''m2''))
       = (Inr (example_artifact 8 ''m2''), example_received ''m2'')
   \<and> example_json_loads (a_file (example_artifact 8 ''m2'')) = Some example_document
   \<and> py_get example_document ''config'' = Inr (JObject [(''digest'', JString ''sha256:c'')])
   \<and> py_get (JObject [(''digest'', JString ''sha256:c'')]) ''digest'' = Inr (JString ''sha256:c'')
   \<and> objects_get (\<lambda>b. JString (b_digest b) = JString ''sha256:c'')
        (blobs (example_received ''m2'')) = Inr example_config_blob
   \<and> py_get example_document ''layers'' = Inr example_layers
   \<and> py_iter example_layers
       = Inr [JObject [(''digest'', JString ''sha256:l1'')],
              JObject [(''digest'', JString ''sha256:nope'')]]
   \<and> layer_digests [JObject [(''digest'', JString ''sha256:l1'')],
                    JObject [(''digest'', JString ''sha256:nope'')]] []
       = Inr [JString ''sha256:l1'', JString ''sha256:nope'']
   \<and> ''sha256:nope'' \<notin> set (map b_digest (blobs example_registry))
   \<and> (\<exists>manifest db'.
         Manifests_put example_hexdigest example_json_loads example_registry
           (example_request None None ''m2'') ''repo'' ''latest''
           = (Inr (ManifestResponse manifest ''repo'' 201 0), db')
       \<and> manifest \<in> set (manifests db')
       \<and> set (blob_manifests db')
           = set (blob_manifests example_registry)
             \<union> {\<lparr>bm_manifest = m_pk manifest, bm_manifest_blob = 5\<rparr>})"
proof -
  have h3: "receive_artifact example_hexdigest example_registry
        (wsgi_input (example_request None None ''m2''))
       = (Inr (example_artifact 8 ''m2''), example_received ''m2'')"
    by (rule example_receive_m2)
  have n: "''sha256:nope'' \<notin> set (map b_digest (blobs example_registry))"
    by (simp add: example_registry_def example_config_blob_def example_layer_blob_def)
  have s: "{b \<in> set (blobs example_registry).
             JString (b_digest b) \<in> set [JString ''sha256:l1'', JString ''sha256:nope'']}
           = {example_layer_blob}"
    by (auto simp: example_registry_def example_config_blob_def example_layer_blob_def)
  have p: "b_pk example_layer_blob = 5" by (simp add: example_layer_blob_def)
  from put_skips_unresolved_layers [where json_loads = example_json_loads and pk = "''latest''",
      OF example_registry_consistent example_registry_get_dr_push
      h3 example_loads_m2 example_m2_facts]
  obtain manifest db' where
    "Manifests_put example_hexdigest example_json_loads example_registry
           (example_request None None ''m2'') ''repo'' ''latest''
           = (Inr (ManifestResponse manifest ''repo'' 201 0), db')"
    "manifest \<in> set (manifests db')"
    "set (blob_manifests db')
           = set (blob_manifests example_registry)
             \<union> (\<lambda>b. \<lparr>bm_manifest = m_pk manifest, bm_manifest_blob = b_pk b\<rparr>)
                   ` {b \<in> set (blobs example_registry).
                       JString (b_digest b) \<in> set [JString ''sha256:l1'', JString ''sha256:nope'']}"
    by blast
  then have "\<exists>manifest db'.
         Manifests_put example_hexdigest example_json_loads example_registry
           (example_request None None ''m2'') ''repo'' ''latest''
           = (Inr (ManifestResponse manifest ''repo'' 201 0), db')
       \<and> manifest \<in> set (manifests db')
       \<and> set (blob_manifests db')
           = set (blob_manifests example_registry)
             \<union> {\<lparr>bm_manifest = m_pk manifest, bm_manifest_blob = 5\<rparr>}"
    unfolding s using p by auto
  with example_registry_consistent example_registry_get_dr_push h3 example_loads_m2
    example_m2_facts n
  show ?thesis by simp
qed

text \<open>
  C5. Re-pushing a tag name against a different manifest (\<open>Manifests.put\<close>) on a
  consistent store publishes a new repository version in which exactly one Tag row has that
  name, and this Tag points at the manifest just pushed. Every Tag row of that name that
  pointed at a manifest with another digest is still a row of the Tag table and is not a
  member of the new version.
\<close>

theorem put_retag:
  assumes "db_consistent db"
    and "get_dr_push db path = Inr repository"
    and "receive_artifact hexdigest db (wsgi_input request) = (Inr artifact, db1)"
    and "json_loads (a_file artifact) = Some content_data"
    and "py_get content_data ''config'' = Inr config_layer"
    and "py_get config_layer ''digest'' = Inr config_digest"
    and "objects_get (\<lambda>b. JString (b_digest b) = config_digest) (blobs db1) = Inr config_blob"
    and "py_get content_data ''layers'' = Inr layers"
    and "py_iter layers = Inr layer_list"
    and "layer_digests layer_list [] = Inr digests"
  shows "\<exists>manifest db' content.
           Manifests_put hexdigest json_loads db request path pk
             = (Inr (ManifestResponse manifest path 201 0), db')
         \<and> m_digest manifest = ''sha256:'' @ a_sha256 artifact
         \<and> versions db' repository = versions db repository @ [content]
         \<and> (\<exists>t. t \<in> set (tags db') \<and> t_name t = pk \<and> t_tagged_manifest t = m_pk manifest
                \<and> t_pk t \<in> content
                \<and> (\<forall>t' \<in> set (tags db'). t_name t' = pk \<and> t_pk t' \<in> content \<longrightarrow> t' = t))
         \<and> (\<forall>old \<in> set (tags db). \<forall>mo \<in> set (manifests db).
                t_name old = pk \<and> t_tagged_manifest old = m_pk mo
                \<and> m_digest mo \<noteq> m_digest manifest
                \<longrightarrow> old \<in> set (tags db') \<and> t_pk old \<notin> content)"
proof -
  from Manifests_put_ok [where json_loads = json_loads and pk = pk, OF assms]
  obtain manifest db' content t where
    put: "Manifests_put hexdigest json_loads db request path pk
            = (Inr (ManifestResponse manifest path 201 0), db')"
    and dg: "m_digest manifest = ''sha256:'' @ a_sha256 artifact"
    and mm: "manifest \<in> set (manifests db')" "set (manifests db) \<subseteq> set (manifests db')"
      "distinct (map m_pk (manifests db'))"
    and ts: "set (tags db) \<subseteq> set (tags db')"
    and v: "versions db' repository = versions db repository @ [content]"
    and t: "t \<in> set (tags db')" "t_name t = pk" "t_tagged_manifest t = m_pk manifest"
      "t_pk t \<in> content"
    and u: "\<forall>t' \<in> set (tags db'). t_name t' = pk \<and> t_pk t' \<in> content \<longrightarrow> t' = t"
    by blast
  from mm(3) have inj: "inj_on m_pk (set (manifests db'))" by (simp add: distinct_map)
  have old: "old \<in> set (tags db') \<and> t_pk old \<notin> content"
    if o: "old \<in> set (tags db)" "mo \<in> set (manifests db)" "t_name old = pk"
      "t_tagged_manifest old = m_pk mo" "m_digest mo \<noteq> m_digest manifest" for old mo
  proof
    from o(1) ts show o': "old \<in> set (tags db')" by auto
    show "t_pk old \<notin> content"
    proof
      assume "t_pk old \<in> content"
      with u o' o(3) have "old = t" by blast
      with t(3) o(4) have "m_pk mo = m_pk manifest" by simp
      moreover from o(2) mm(2) have "mo \<in> set (manifests db')" by auto
      ultimately have "mo = manifest" using inj mm(1) by (auto dest: inj_onD)
      with o(5) show False by simp
    qed
  qed
  from put dg v t u old show ?thesis by blast
qed

theorem put_retag_witness:
  "db_consistent example_registry
   \<and> get_dr_push example_registry ''repo'' = Inr 1
   \<and> receive_artifact example_hexdigest example_registry
        (wsgi_input (example_request None None ''m2''))
       = (Inr (example_artifact 8 ''m2''), example_received ''m2'')
   \<and> example_json_loads (a_file (example_artifact 8 ''m2'')) = Some example_document
   \<and> py_get example_document ''config'' = Inr (JObject [(''digest'', JString ''sha256:c'')])
   \<and> py_get (JObject [(''digest'', JString ''sha256:c'')]) ''digest'' = Inr (JString ''sha256:c'')
   \<and> objects_get (\<lambda>b. JString (b_digest b) = JString ''sha256:c'')
        (blobs (example_received ''m2'')) = Inr example_config_blob
   \<and> py_get example_document ''layers'' = Inr example_layers
   \<and> py_iter example_layers
       = Inr [JObject [(''digest'', JString ''sha256:l1'')],
              JObject [(''digest'', JString ''sha256:nope'')]]
   \<and> layer_digests [JObject [(''digest'', JString ''sha256:l1'')],
                    JObject [(''digest'', JString ''sha256:nope'')]] []
       = Inr [JString ''sha256:l1'', JString ''sha256:nope'']
   \<and> example_tag \<in> set (tags example_registry)
   \<and> example_manifest \<in> set (manifests example_registry)
   \<and> t_name example_tag = ''latest''
   \<and> t_tagged_manifest example_tag = m_pk example_manifest
   \<and> t_pk example_tag \<in> last (versions example_registry 1)
   \<and> (\<exists>manifest db' content.
         Manifests_put example_hexdigest example_json_loads example_registry
           (example_request None None ''m2'') ''repo'' ''latest''
           = (Inr (ManifestResponse manifest ''repo'' 201 0), db')
       \<and> m_digest manifest = ''sha256:sha256-m2''
       \<and> versions db' 1 = versions example_registry 1 @ [content]
       \<and> (\<exists>t. t \<in> set (tags db') \<and> t_name t = ''latest''
              \<and> t_tagged_manifest t = m_pk manifest \<and> t_pk t \<in> content
              \<and> (\<forall>t' \<in> set (tags db'). t_name t' = ''latest'' \<and> t_pk t' \<in> content \<longrightarrow> t' = t))
       \<and> example_tag \<in> set (tags db') \<and> t_pk example_tag \<notin> content)"
proof -
  have e: "example_tag \<in> set (tags example_registry)"
    "example_manifest \<in> set (manifests example_registry)"
    "t_name example_tag = ''latest''"
    "t_tagged_manifest example_tag = m_pk example_manifest"
    "t_pk example_tag \<in> last (versions example_registry 1)"
    by (simp_all add: example_registry_def example_tag_def example_manifest_def)
  have d: "m_digest example_manifest \<noteq> ''sha256:'' @ a_sha256 (example_artifact 8 ''m2'')"
    by (simp add: example_manifest_def example_artifact_def example_hexdigest_def)
  have d': "''sha256:'' @ a_sha256 (example_artifact 8 ''m2'') = ''sha256:sha256-m2''"
    by (simp add: example_artifact_def example_hexdigest_def)
  from put_retag [where json_loads = example_json_loads and pk = "''latest''",
      OF example_registry_consistent example_registry_get_dr_push
      example_receive_m2 example_loads_m2 example_m2_facts]
  obtain manifest db' content where
    r: "Manifests_put example_hexdigest example_json_loads example_registry
           (example_request None None ''m2'') ''repo'' ''latest''
           = (Inr (ManifestResponse manifest ''repo'' 201 0), db')"
      "m_digest manifest = ''sha256:'' @ a_sha256 (example_artifact 8 ''m2'')"
      "versions db' 1 = versions example_registry 1 @ [content]"
      "\<exists>t. t \<in> set (tags db') \<and> t_name t = ''latest''
              \<and> t_tagged_manifest t = m_pk manifest \<and> t_pk t \<in> content
              \<and> (\<forall>t' \<in> set (tags db'). t_name t' = ''latest'' \<and> t_pk t' \<in> content \<longrightarrow> t' = t)"
      "\<forall>old \<in> set (tags example_registry). \<forall>mo \<in> set (manifests example_registry).
                t_name old = ''latest'' \<and> t_tagged_manifest old = m_pk mo
                \<and> m_digest mo \<noteq> m_digest manifest
                \<longrightarrow> old \<in> set (tags db') \<and> t_pk old \<notin> content"
    by blast
  from r(5) e(1-4) d r(2) have o: "example_tag \<in> set (tags db') \<and> t_pk example_tag \<notin> content"
    by metis
  from r(2) d' have dm: "m_digest manifest = ''sha256:sha256-m2''" by simp
  have "\<exists>manifest db' content.
         Manifests_put example_hexdigest example_json_loads example_registry
           (example_request None None ''m2'') ''repo'' ''latest''
           = (Inr (ManifestResponse manifest ''repo'' 201 0), db')
       \<and> m_digest manifest = ''sha256:sha256-m2''
       \<and> versions db' 1 = versions example_registry 1 @ [content]
       \<and> (\<exists>t. t \<in> set (tags db') \<and> t_name t = ''latest''
              \<and> t_tagged_manifest t = m_pk manifest \<and> t_pk t \<in> content
              \<and> (\<forall>t' \<in> set (tags db'). t_name t' = ''latest'' \<and> t_pk t' \<in> content \<longrightarrow> t' = t))
       \<and> example_tag \<in> set (tags db') \<and> t_pk example_tag \<notin> content"
    using r(1) dm r(3) r(4) o by blast
  with example_registry_consistent example_registry_get_dr_push example_receive_m2
    example_loads_m2 example_m2_facts e
  show ?thesis by simp
qed

section \<open>Resolving a manifest reference\<close>

lemma take7_prefix: "take 7 pk = ''sha256:'' \<longleftrightarrow> prefix ''sha256:'' pk"
proof
  assume "take 7 pk = ''sha256:''"
  then have "pk = ''sha256:'' @ drop 7 pk" by (metis append_take_drop_id)
  then show "prefix ''sha256:'' pk" by (metis prefixI)
next
  assume "prefix ''sha256:'' pk"
  then obtain zs where "pk = ''sha256:'' @ zs" by (auto simp: prefix_def)
  then show "take 7 pk = ''sha256:''" by simp
qed

lemma get_object_or_404_miss:
  "\<forall>x \<in> set xs. \<not> P x \<Longrightarrow> get_object_or_404 P xs = Inl Http404"
  by (simp add: get_object_or_404_def objects_get_def filter_empty_conv [THEN iffD2])

text \<open>
  C6. For a repository version and a reference (\<open>Manifests.head\<close> and \<open>Manifests.get\<close>):
  a reference that begins with \<open>sha256:\<close> is looked up as the digest of a Manifest in
  the version's content; any other reference is looked up as the name of a Tag in the
  version's content and followed through \<open>tagged_manifest\<close>. Both handlers make the same
  lookup, so they fail together and answer for the same manifest, and a miss in either
  branch is \<open>Http404\<close>.
\<close>

theorem manifest_reference_resolution:
  assumes "get_drv_pull db path = Inr content"
  shows "(prefix ''sha256:'' pk \<longrightarrow>
            Manifests_head db path pk
              = (case get_object_or_404 (\<lambda>m. m_digest m = pk \<and> m_pk m \<in> content) (manifests db) of
                   Inl e \<Rightarrow> Inl e
                 | Inr manifest \<Rightarrow> mk_ManifestResponse db manifest path 200)
          \<and> Manifests_get origin db path pk
              = (case get_object_or_404 (\<lambda>m. m_digest m = pk \<and> m_pk m \<in> content) (manifests db) of
                   Inl e \<Rightarrow> Inl e
                 | Inr manifest \<Rightarrow> Inr (Redirect (manifest_url origin path (m_digest manifest))))
          \<and> ((\<forall>m \<in> set (manifests db). \<not> (m_digest m = pk \<and> m_pk m \<in> content)) \<longrightarrow>
                Manifests_head db path pk = Inl Http404
              \<and> Manifests_get origin db path pk = Inl Http404))
       \<and> (\<not> prefix ''sha256:'' pk \<longrightarrow>
            Manifests_head db path pk
              = (case get_object_or_404 (\<lambda>t. t_name t = pk \<and> t_pk t \<in> content) (tags db) of
                   Inl e \<Rightarrow> Inl e
                 | Inr tag \<Rightarrow>
                     (case objects_get (\<lambda>m. m_pk m = t_tagged_manifest tag) (manifests db) of
                        Inl e \<Rightarrow> Inl e
                      | Inr manifest \<Rightarrow> mk_ManifestResponse db manifest path 200))
          \<and> Manifests_get origin db path pk
              = (case get_object_or_404 (\<lambda>t. t_name t = pk \<and> t_pk t \<in> content) (tags db) of
                   Inl e \<Rightarrow> Inl e
                 | Inr tag \<Rightarrow>
                     (case objects_get (\<lambda>m. m_pk m = t_tagged_manifest tag) (manifests db) of
                        Inl e \<Rightarrow> Inl e
                      | Inr manifest \<Rightarrow>
                          Inr (Redirect (manifest_url origin path (m_digest manifest)))))
          \<and> ((\<forall>t \<in> set (tags db). \<not> (t_name t = pk \<and> t_pk t \<in> content)) \<longrightarrow>
                Manifests_head db path pk = Inl Http404
              \<and> Manifests_get origin db path pk = Inl Http404))"
proof (intro conjI impI)
  assume p: "prefix ''sha256:'' pk"
  then have t: "take 7 pk = ''sha256:''" by (simp add: take7_prefix)
  show h: "Manifests_head db path pk
              = (case get_object_or_404 (\<lambda>m. m_digest m = pk \<and> m_pk m \<in> content) (manifests db) of
                   Inl e \<Rightarrow> Inl e
                 | Inr manifest \<Rightarrow> mk_ManifestResponse db manifest path 200)"
    using assms t by (simp add: Manifests_head_def)
  show g: "Manifests_get origin db path pk
              = (case get_object_or_404 (\<lambda>m. m_digest m = pk \<and> m_pk m \<in> content) (manifests db) of
                   Inl e \<Rightarrow> Inl e
                 | Inr manifest \<Rightarrow> Inr (Redirect (manifest_url origin path (m_digest manifest))))"
    using assms t by (simp add: Manifests_get_def)
  assume "\<forall>m \<in> set (manifests db). \<not> (m_digest m = pk \<and> m_pk m \<in> content)"
  then have "get_object_or_404 (\<lambda>m. m_digest m = pk \<and> m_pk m \<in> content) (manifests db)
               = Inl Http404"
    by (rule get_object_or_404_miss)
  with h g show "Manifests_head db path pk = Inl Http404"
    "Manifests_get origin db path pk = Inl Http404" by simp_all
next
  assume "\<not> prefix ''sha256:'' pk"
  then have t: "take 7 pk \<noteq> ''sha256:''" by (simp add: take7_prefix)
  show h: "Manifests_head db path pk
              = (case get_object_or_404 (\<lambda>t. t_name t = pk \<and> t_pk t \<in> content) (tags db) of
                   Inl e \<Rightarrow> Inl e
                 | Inr tag \<Rightarrow>
                     (case objects_get (\<lambda>m. m_pk m = t_tagged_manifest tag) (manifests db) of
                        Inl e \<Rightarrow> Inl e
                      | Inr manifest \<Rightarrow> mk_ManifestResponse db manifest path 200))"
    using assms t by (simp add: Manifests_head_def split: sum.splits)
  show g: "Manifests_get origin db path pk
              = (case get_object_or_404 (\<lambda>t. t_name t = pk \<and> t_pk t \<in> content) (tags db) of
                   Inl e \<Rightarrow> Inl e
                 | Inr tag \<Rightarrow>
                     (case objects_get (\<lambda>m. m_pk m = t_tagged_manifest tag) (manifests db) of
                        Inl e \<Rightarrow> Inl e
                      | Inr manifest \<Rightarrow>
                          Inr (Redirect (manifest_url origin path (m_digest manifest)))))"
    using assms t by (simp add: Manifests_get_def split: sum.splits)
  assume "\<forall>t \<in> set (tags db). \<not> (t_name t = pk \<and> t_pk t \<in> content)"
  then have "get_object_or_404 (\<lambda>t. t_name t = pk \<and> t_pk t \<in> content) (tags db) = Inl Http404"
    by (rule get_object_or_404_miss)
  with h g show "Manifests_head db path pk = Inl Http404"
    "Manifests_get origin db path pk = Inl Http404" by simp_all
qed

theorem manifest_reference_resolution_witness:
  "get_drv_pull example_registry ''repo'' = Inr {4, 5, 6, 7}
   \<and> \<not> prefix ''sha256:'' ''latest''
   \<and> prefix ''sha256:'' ''sha256:sha256-m1''
   \<and> \<not> prefix ''sha256:'' ''v2''
   \<and> filter (\<lambda>t. t_name t = ''v2'' \<and> t_pk t \<in> {4, 5, 6, 7}) (tags example_registry) = []
   \<and> Manifests_head example_registry ''repo'' ''latest''
       = Inr (ManifestResponse example_manifest ''repo'' 200 0)
   \<and> Manifests_get ''origin'' example_registry ''repo'' ''latest''
       = Inr (Redirect (manifest_url ''origin'' ''repo'' ''sha256:sha256-m1''))
   \<and> Manifests_head example_registry ''repo'' ''sha256:sha256-m1''
       = Inr (ManifestResponse example_manifest ''repo'' 200 0)
   \<and> Manifests_get ''origin'' example_registry ''repo'' ''sha256:sha256-m1''
       = Inr (Redirect (manifest_url ''origin'' ''repo'' ''sha256:sha256-m1''))
   \<and> Manifests_head example_registry ''repo'' ''v2'' = Inl Http404
   \<and> Manifests_get ''origin'' example_registry ''repo'' ''v2'' = Inl Http404"
proof -
  have h: "get_drv_pull example_registry ''repo'' = Inr {4, 5, 6, 7}"
    by (simp add: get_drv_pull_def latest_version_def example_registry_def)
  have p: "\<not> prefix ''sha256:'' ''latest''" "prefix ''sha256:'' ''sha256:sha256-m1''"
    "\<not> prefix ''sha256:'' ''v2''"
    by (simp_all add: take7_prefix [symmetric])
  have m': "filter (\<lambda>t. t_name t = ''v2'' \<and> t_pk t \<in> {4, 5, 6, 7}) (tags example_registry) = []"
    by (simp add: example_registry_def example_tag_def)
  have m: "\<forall>t \<in> set (tags example_registry). \<not> (t_name t = ''v2'' \<and> t_pk t \<in> {4, 5, 6, 7})"
    by (simp add: example_registry_def example_tag_def)
  have l: "get_object_or_404 (\<lambda>t. t_name t = ''latest'' \<and> t_pk t \<in> {4, 5, 6, 7})
             (tags example_registry) = Inr example_tag"
    "objects_get (\<lambda>m. m_pk m = t_tagged_manifest example_tag) (manifests example_registry)
       = Inr example_manifest"
    "get_object_or_404 (\<lambda>m. m_digest m = ''sha256:sha256-m1'' \<and> m_pk m \<in> {4, 5, 6, 7})
       (manifests example_registry) = Inr example_manifest"
    "mk_ManifestResponse example_registry example_manifest ''repo'' 200
       = Inr (ManifestResponse example_manifest ''repo'' 200 0)"
    "m_digest example_manifest = ''sha256:sha256-m1''"
    by (simp_all add: get_object_or_404_def objects_get_def mk_ManifestResponse_def
        artifacts_of_def example_registry_def example_tag_def example_manifest_def
        example_artifact_def)
  from manifest_reference_resolution [OF h, of "''latest''" "''origin''"] p(1) l
  have 1: "Manifests_head example_registry ''repo'' ''latest''
             = Inr (ManifestResponse example_manifest ''repo'' 200 0)"
    "Manifests_get ''origin'' example_registry ''repo'' ''latest''
       = Inr (Redirect (manifest_url ''origin'' ''repo'' ''sha256:sha256-m1''))"
    by simp_all
  from manifest_reference_resolution [OF h, of "''sha256:sha256-m1''" "''origin''"] p(2) l
  have 2: "Manifests_head example_registry ''repo'' ''sha256:sha256-m1''
             = Inr (ManifestResponse example_manifest ''repo'' 200 0)"
    "Manifests_get ''origin'' example_registry ''repo'' ''sha256:sha256-m1''
       = Inr (Redirect (manifest_url ''origin'' ''repo'' ''sha256:sha256-m1''))"
    by simp_all
  from manifest_reference_resolution [OF h, of "''v2''" "''origin''"] p(3) m
  have 3: "Manifests_head example_registry ''repo'' ''v2'' = Inl Http404"
    "Manifests_get ''origin'' example_registry ''repo'' ''v2'' = Inl Http404"
    by blast+
  from h p m' 1 2 3 show ?thesis by blast
qed

section \<open>Creation under a unique key\<close>

text \<open>
  C4. Creating a content-addressed row whose key is already in the table (an Artifact by
  sha256, in \<open>BlobUploads.put\<close> and in \<open>receive_artifact\<close>; a Blob by digest; a Manifest
  by digest): the \<open>IntegrityError\<close> of the insert is caught, the row that has the key is
  fetched and returned, and the store is unchanged. On a store that satisfies its unique
  constraints no creation returns an error.
\<close>

theorem create_returns_existing_row:
  assumes "db_consistent db"
  shows "(\<forall>a0 \<in> set (artifacts db). a_sha256 a0 = a_sha256 a \<longrightarrow>
            create_artifact db a = (Inr a0, db))
       \<and> (\<forall>a0 \<in> set (artifacts db). a_sha256 a0 = hexdigest ''sha256'' chunk \<longrightarrow>
            receive_artifact hexdigest db chunk = (Inr a0, db))
       \<and> (\<forall>b0 \<in> set (blobs db). b_digest b0 = b_digest b \<longrightarrow>
            create_blob db b = (Inr b0, db))
       \<and> (\<forall>m0 \<in> set (manifests db). m_digest m0 = m_digest m \<longrightarrow>
            create_manifest db m = (Inr m0, db))
       \<and> (\<exists>a' db'. create_artifact db a = (Inr a', db'))
       \<and> (\<exists>b' db'. create_blob db b = (Inr b', db'))
       \<and> (\<exists>m' db'. create_manifest db m = (Inr m', db'))"
proof -
  from assms have d: "distinct (map a_sha256 (artifacts db))" "distinct (map b_digest (blobs db))"
    "distinct (map m_digest (manifests db))"
    unfolding db_consistent_def by blast+
  have A: "create_artifact db x = (Inr a0, db)"
    if "a0 \<in> set (artifacts db)" "a_sha256 a0 = a_sha256 x" for a0 x
  proof -
    from that(1) have "a_sha256 a0 \<in> set (map a_sha256 (artifacts db))" by simp
    with that(2) have "a_sha256 x \<in> set (map a_sha256 (artifacts db))" by simp
    moreover from objects_get_key [OF d(1) that(1)] that(2)
    have "objects_get (\<lambda>y. a_sha256 y = a_sha256 x) (artifacts db) = Inr a0" by simp
    ultimately show ?thesis by (simp add: create_artifact_def artifact_save_def)
  qed
  have B: "create_blob db x = (Inr b0, db)"
    if "b0 \<in> set (blobs db)" "b_digest b0 = b_digest x" for b0 x
  proof -
    from that(1) have "b_digest b0 \<in> set (map b_digest (blobs db))" by simp
    with that(2) have "b_digest x \<in> set (map b_digest (blobs db))" by simp
    moreover from objects_get_key [OF d(2) that(1)] that(2)
    have "objects_get (\<lambda>y. b_digest y = b_digest x) (blobs db) = Inr b0" by simp
    ultimately show ?thesis by (simp add: create_blob_def blob_save_def)
  qed
  have M: "create_manifest db x = (Inr m0, db)"
    if "m0 \<in> set (manifests db)" "m_digest m0 = m_digest x" for m0 x
  proof -
    from that(1) have "m_digest m0 \<in> set (map m_digest (manifests db))" by simp
    with that(2) have "m_digest x \<in> set (map m_digest (manifests db))" by simp
    moreover from objects_get_key [OF d(3) that(1)] that(2)
    have "objects_get (\<lambda>y. m_digest y = m_digest x) (manifests db) = Inr m0" by simp
    ultimately show ?thesis by (simp add: create_manifest_def manifest_save_def)
  qed
  have R: "receive_artifact hexdigest db chunk = (Inr a0, db)"
    if "a0 \<in> set (artifacts db)" "a_sha256 a0 = hexdigest ''sha256'' chunk" for a0
    unfolding receive_artifact_def using that by (intro A) simp_all
  from create_artifact_consistent [OF assms, of a]
  have EA: "\<exists>a' db'. create_artifact db a = (Inr a', db')" by blast
  from create_blob_consistent [OF assms, of b]
  have EB: "\<exists>b' db'. create_blob db b = (Inr b', db')" by blast
  from create_manifest_consistent [OF assms, of m]
  have EM: "\<exists>m' db'. create_manifest db m = (Inr m', db')" by blast
  from A B M R EA EB EM show ?thesis by blast
qed

theorem create_returns_existing_row_witness:
  "db_consistent example_registry
   \<and> example_artifact 3 ''m1'' \<in> set (artifacts example_registry)
   \<and> example_config_blob \<in> set (blobs example_registry)
   \<and> example_manifest \<in> set (manifests example_registry)
   \<and> create_artifact example_registry (example_artifact 0 ''m1'')
       = (Inr (example_artifact 3 ''m1''), example_registry)
   \<and> receive_artifact example_hexdigest example_registry ''m1''
       = (Inr (example_artifact 3 ''m1''), example_registry)
   \<and> create_blob example_registry \<lparr>b_pk = 0, b_digest = ''sha256:c'', b_media_type = REGULAR_BLOB\<rparr>
       = (Inr example_config_blob, example_registry)
   \<and> create_manifest example_registry
        \<lparr>m_pk = 0, m_digest = ''sha256:sha256-m1'', m_schema_version = 2, m_media_type = ''x'',
         m_config_blob = 5\<rparr>
       = (Inr example_manifest, example_registry)"
proof -
  have e: "example_artifact 3 ''m1'' \<in> set (artifacts example_registry)"
    "example_config_blob \<in> set (blobs example_registry)"
    "example_manifest \<in> set (manifests example_registry)"
    by (simp_all add: example_registry_def)
  have k: "a_sha256 (example_artifact 3 ''m1'') = a_sha256 (example_artifact 0 ''m1'')"
    "a_sha256 (example_artifact 3 ''m1'') = example_hexdigest ''sha256'' ''m1''"
    "b_digest example_config_blob
       = b_digest \<lparr>b_pk = 0, b_digest = ''sha256:c'', b_media_type = REGULAR_BLOB\<rparr>"
    "m_digest example_manifest
       = m_digest \<lparr>m_pk = 0, m_digest = ''sha256:sha256-m1'', m_schema_version = 2,
                   m_media_type = ''x'', m_config_blob = 5\<rparr>"
    by (simp_all add: example_artifact_def example_config_blob_def example_manifest_def)
  from create_returns_existing_row [OF example_registry_consistent,
      of "example_artifact 0 ''m1''" example_hexdigest "''m1''"
         "\<lparr>b_pk = 0, b_digest = ''sha256:c'', b_media_type = REGULAR_BLOB\<rparr>"
         "\<lparr>m_pk = 0, m_digest = ''sha256:sha256-m1'', m_schema_version = 2,
           m_media_type = ''x'', m_config_blob = 5\<rparr>"]
    e k example_registry_consistent
  show ?thesis by blast
qed

section \<open>Removing content\<close>




end
